theory Spec2Isabelle
  imports Main
begin

section \<open>Values, collaborators and observable effects\<close>

text \<open>
  The module \<^verbatim>\<open>src/utils/actions.ts\<close> is a sequence of awaited calls to collaborators
  (configuration, the tracker client, the git existence check, the prompt, subprocesses,
  the OS opener). A run is modelled as the list of effects it performs, in order, together
  with the way it ends. The collaborators are the fields of an environment record; within
  one run each of them is asked at most once per argument, so a function of the argument
  describes every answer a run can get.
\<close>

text \<open>A thrown JavaScript error value, kept opaque apart from its message.\<close>

datatype exn = Error string

text \<open>The part of the tracker's answers that the module reads.\<close>

record issue_details =
  issue_branchName :: string

record workflow_state =
  state_id :: string
  state_name :: string

text \<open>
  A subprocess as \<^verbatim>\<open>new Deno.Command(exe, {args, stdin, stdout, stderr})\<close> builds it:
  \<open>Inherit\<close> when the three streams are inherited and the process is spawned,
  \<open>Piped\<close> when it is run through \<^verbatim>\<open>output()\<close>.
\<close>

datatype stdio = Piped | Inherit

record command =
  cmd_exe :: string
  cmd_args :: "string list"
  cmd_stdio :: stdio

record open_options =
  app :: "bool option"
  web :: "bool option"

text \<open>
  The collaborators, with the signatures the callers rely on. \<open>fetchIssueDetails\<close>,
  \<open>getStartedState\<close>, \<open>updateIssueState\<close>, running a subprocess and the OS opener either
  return or throw (\<open>Inl\<close>); \<open>run_command\<close> returns the \<^verbatim>\<open>success\<close> flag of the exit
  status. The configuration reads, \<open>getIssueIdentifier\<close>, \<open>branchExists\<close> and the prompt
  return a value; \<open>select_prompt\<close> is the value \<^verbatim>\<open>Select.prompt\<close> resolves to.
\<close>

record env =
  getOption :: "string \<Rightarrow> string option"
  getTeamKey :: "string option"
  getIssueIdentifier :: "string option \<Rightarrow> string option"
  fetchIssueDetails :: "string \<Rightarrow> bool \<Rightarrow> exn + issue_details"
  getStartedState :: "string \<Rightarrow> exn + workflow_state"
  updateIssueState :: "string \<Rightarrow> string \<Rightarrow> exn + unit"
  branchExists :: "string \<Rightarrow> bool"
  select_prompt :: "string \<Rightarrow> (string \<times> string) list \<Rightarrow> string"
  run_command :: "command \<Rightarrow> exn + bool"
  os_open :: "string \<Rightarrow> string option \<Rightarrow> exn + unit"

text \<open>
  The effects a run performs. \<open>ConsoleErrorWith m e\<close> is \<^verbatim>\<open>console.error(m, e)\<close>;
  \<open>OpenCall url a\<close> is \<^verbatim>\<open>open(url, ...)\<close> with the application name when one is given.
\<close>

datatype event =
    ConsoleLog string
  | ConsoleError string
  | ConsoleErrorWith string exn
  | GetIssueIdentifierCall "string option"
  | FetchIssueDetailsCall string bool
  | GetStartedStateCall string
  | UpdateIssueStateCall string string
  | BranchExistsCall string
  | SelectPrompt string "(string \<times> string) list"
  | Spawn command
  | OpenCall string "string option"

text \<open>
  How a call ends: it returns a value, it throws, or \<^verbatim>\<open>Deno.exit(n)\<close> ends the
  process (which no \<^verbatim>\<open>catch\<close> intercepts).
\<close>

datatype 'a outcome = Returned 'a | Threw exn | Exited nat

type_synonym 'a run = "event list \<times> 'a outcome"

definition prepend :: "event list \<Rightarrow> 'a run \<Rightarrow> 'a run" where
  "prepend tr r = (tr @ fst r, snd r)"

text \<open>Sequencing of two awaited steps: the second runs only if the first returned.\<close>

definition and_then :: "'a run \<Rightarrow> ('a \<Rightarrow> 'b run) \<Rightarrow> 'b run" where
  "and_then m f =
     (case snd m of
        Returned x \<Rightarrow> prepend (fst m) (f x)
      | Threw e \<Rightarrow> (fst m, Threw e)
      | Exited n \<Rightarrow> (fst m, Exited n))"

text \<open>
  JavaScript truthiness of an optional string: \<^verbatim>\<open>undefined\<close> and the empty string
  are falsy. \<open>js_truthy v\<close> is the string when \<^verbatim>\<open>!v\<close> is false.
\<close>

definition js_truthy :: "string option \<Rightarrow> string option" where
  "js_truthy v = (case v of None \<Rightarrow> None | Some s \<Rightarrow> if s = [] then None else Some s)"

text \<open>\<^verbatim>\<open>v || d\<close> on an optional string.\<close>

definition js_or :: "string option \<Rightarrow> string \<Rightarrow> string" where
  "js_or v d = (case js_truthy v of None \<Rightarrow> d | Some s \<Rightarrow> s)"

text \<open>The check mark U+2713 of the confirmation lines, as its UTF-8 bytes.\<close>

definition check_mark :: string where
  "check_mark = [CHR 0xE2, CHR 0x9C, CHR 0x93]"

definition quoted :: "string \<Rightarrow> string" where
  "quoted s = [CHR 0x27] @ s @ [CHR 0x27]"

text \<open>
  Template interpolation \<^verbatim>\<open>${suffix}\<close> of a counter: its decimal digits. The counter
  of the suffix search is a JavaScript number that starts at 1 and is incremented by 1.
  Such a number is an exact integer, printed as its decimal digits, up to \<open>2^53\<close>, more
  names than a repository holds; it is modelled as a natural number.
\<close>

definition digit_char :: "nat \<Rightarrow> char" where
  "digit_char d = ''0123456789'' ! d"

fun number_to_string :: "nat \<Rightarrow> string" where
  "number_to_string n =
     (if n < 10 then [digit_char n]
      else number_to_string (n div 10) @ [digit_char (n mod 10)])"

declare number_to_string.simps [simp del]

section \<open>Page opener\<close>

definition workspace_missing :: string where
  "workspace_missing =
     ''workspace is not set via command line, configuration file, or environment.''"

definition open_target :: "open_options \<Rightarrow> string option" where
  "open_target options = (if app options = Some True then Some ''Linear'' else None)"

definition openIssuePage :: "env \<Rightarrow> string option \<Rightarrow> open_options \<Rightarrow> unit run" where
  "openIssuePage E providedId options =
     (case js_truthy (getIssueIdentifier E providedId) of
        None \<Rightarrow>
          ([GetIssueIdentifierCall providedId,
            ConsoleError ''The current branch does not contain a valid linear issue id.''],
           Exited 1)
      | Some issueId \<Rightarrow>
          (case js_truthy (getOption E ''workspace'') of
             None \<Rightarrow>
               ([GetIssueIdentifierCall providedId, ConsoleError workspace_missing], Exited 1)
           | Some workspace \<Rightarrow>
               (let url = ''https://linear.app/'' @ workspace @ ''/issue/'' @ issueId;
                    destination =
                      (if app options = Some True then ''Linear.app'' else ''web browser'')
                in ([GetIssueIdentifierCall providedId,
                     ConsoleLog (''Opening '' @ url @ '' in '' @ destination),
                     OpenCall url (open_target options)],
                    case os_open E url (open_target options) of
                      Inl e \<Rightarrow> Threw e
                    | Inr u \<Rightarrow> Returned ()))))"

definition openProjectPage :: "env \<Rightarrow> string \<Rightarrow> open_options \<Rightarrow> unit run" where
  "openProjectPage E projectId options =
     (case js_truthy (getOption E ''workspace'') of
        None \<Rightarrow> ([ConsoleError workspace_missing], Exited 1)
      | Some workspace \<Rightarrow>
          (let url = ''https://linear.app/'' @ workspace @ ''/project/'' @ projectId;
               destination =
                 (if app options = Some True then ''Linear.app'' else ''web browser'')
           in ([ConsoleLog (''Opening '' @ url @ '' in '' @ destination),
                OpenCall url (open_target options)],
               case os_open E url (open_target options) of
                 Inl e \<Rightarrow> Threw e
               | Inr u \<Rightarrow> Returned ())))"

section \<open>JSON text and base64\<close>

text \<open>
  Modelled from the spec: the filter is "the URL-safe (padding stripped) base64 encoding of
  a fixed filter object serialized as canonical JSON". \<^verbatim>\<open>JSON.stringify\<close> is the
  language's built-in and \<^verbatim>\<open>encodeBase64\<close> comes from the library
  \<^verbatim>\<open>@std/encoding/base64\<close>; neither is code of this repository. The JSON values are
  those without numbers; a string is written between double quotes with the double quote
  and the backslash escaped.
\<close>

datatype json = JNull | JBool bool | JString string | JArray "json list"
  | JObject "(string \<times> json) list"

definition escape_char :: "char \<Rightarrow> string" where
  "escape_char c = (if c = CHR 0x22 \<or> c = CHR 0x5C then [CHR 0x5C, c] else [c])"

definition quote_string :: "string \<Rightarrow> string" where
  "quote_string s = [CHR 0x22] @ concat (map escape_char s) @ [CHR 0x22]"

fun JSON_stringify :: "json \<Rightarrow> string"
  and stringify_elements :: "json list \<Rightarrow> string"
  and stringify_members :: "(string \<times> json) list \<Rightarrow> string" where
  "JSON_stringify JNull = ''null''"
| "JSON_stringify (JBool b) = (if b then ''true'' else ''false'')"
| "JSON_stringify (JString s) = quote_string s"
| "JSON_stringify (JArray xs) = ''['' @ stringify_elements xs @ '']''"
| "JSON_stringify (JObject ms) = ''{'' @ stringify_members ms @ ''}''"
| "stringify_elements [] = []"
| "stringify_elements [x] = JSON_stringify x"
| "stringify_elements (x # y # ys) = JSON_stringify x @ '','' @ stringify_elements (y # ys)"
| "stringify_members [] = []"
| "stringify_members [(k, v)] = quote_string k @ '':'' @ JSON_stringify v"
| "stringify_members ((k, v) # m # ms) =
     quote_string k @ '':'' @ JSON_stringify v @ '','' @ stringify_members (m # ms)"

text \<open>
  Modelled from the spec: reading compact JSON text back (no insignificant white space, no
  numbers, only the two escapes above), with \<open>None\<close> for any other text. The first
  argument bounds the depth of the descent; \<open>JSON_parse\<close> gives enough of it for the
  whole text.
\<close>

fun parse_string_body :: "string \<Rightarrow> (string \<times> string) option" where
  "parse_string_body [] = None"
| "parse_string_body (c # cs) =
     (if c = CHR 0x22 then Some ([], cs)
      else if c = CHR 0x5C then
        (case cs of
           [] \<Rightarrow> None
         | d # ds \<Rightarrow>
             if d = CHR 0x22 \<or> d = CHR 0x5C then
               (case parse_string_body ds of
                  None \<Rightarrow> None
                | Some (s, r) \<Rightarrow> Some (d # s, r))
             else None)
      else
        (case parse_string_body cs of
           None \<Rightarrow> None
         | Some (s, r) \<Rightarrow> Some (c # s, r)))"

fun parse_value :: "nat \<Rightarrow> string \<Rightarrow> (json \<times> string) option"
  and parse_elements :: "nat \<Rightarrow> string \<Rightarrow> (json list \<times> string) option"
  and parse_members :: "nat \<Rightarrow> string \<Rightarrow> ((string \<times> json) list \<times> string) option" where
  "parse_value 0 s = None"
| "parse_value (Suc n) s =
     (if take 4 s = ''null'' then Some (JNull, drop 4 s)
      else if take 4 s = ''true'' then Some (JBool True, drop 4 s)
      else if take 5 s = ''false'' then Some (JBool False, drop 5 s)
      else
        (case s of
           [] \<Rightarrow> None
         | c # cs \<Rightarrow>
             if c = CHR 0x22 then
               (case parse_string_body cs of
                  None \<Rightarrow> None
                | Some (t, r) \<Rightarrow> Some (JString t, r))
             else if c = CHR ''['' then
               (if take 1 cs = '']'' then Some (JArray [], drop 1 cs)
                else
                  (case parse_elements n cs of
                     None \<Rightarrow> None
                   | Some (xs, r) \<Rightarrow> Some (JArray xs, r)))
             else if c = CHR ''{'' then
               (if take 1 cs = ''}'' then Some (JObject [], drop 1 cs)
                else
                  (case parse_members n cs of
                     None \<Rightarrow> None
                   | Some (ms, r) \<Rightarrow> Some (JObject ms, r)))
             else None))"
| "parse_elements 0 s = None"
| "parse_elements (Suc n) s =
     (case parse_value n s of
        None \<Rightarrow> None
      | Some (x, r) \<Rightarrow>
          (case r of
             [] \<Rightarrow> None
           | c # cs \<Rightarrow>
               if c = CHR '','' then
                 (case parse_elements n cs of
                    None \<Rightarrow> None
                  | Some (xs, r') \<Rightarrow> Some (x # xs, r'))
               else if c = CHR '']'' then Some ([x], cs)
               else None))"
| "parse_members 0 s = None"
| "parse_members (Suc n) s =
     (case s of
        [] \<Rightarrow> None
      | q # cs \<Rightarrow>
          if q = CHR 0x22 then
            (case parse_string_body cs of
               None \<Rightarrow> None
             | Some (k, r) \<Rightarrow>
                 (case r of
                    [] \<Rightarrow> None
                  | d # ds \<Rightarrow>
                      if d = CHR '':'' then
                        (case parse_value n ds of
                           None \<Rightarrow> None
                         | Some (v, r') \<Rightarrow>
                             (case r' of
                                [] \<Rightarrow> None
                              | e # es \<Rightarrow>
                                  if e = CHR '','' then
                                    (case parse_members n es of
                                       None \<Rightarrow> None
                                     | Some (ms, r'') \<Rightarrow> Some ((k, v) # ms, r''))
                                  else if e = CHR ''}'' then Some ([(k, v)], es)
                                  else None))
                      else None))
          else None)"

definition JSON_parse :: "string \<Rightarrow> json option" where
  "JSON_parse s =
     (case parse_value (2 * length s + 2) s of
        None \<Rightarrow> None
      | Some (v, r) \<Rightarrow> if r = [] then Some v else None)"

text \<open>
  Modelled from the spec: base64 with the standard alphabet and \<open>=\<close> padding, three
  octets to four characters, on the bytes of the text.
\<close>

definition base64abc :: string where
  "base64abc = ''ABCDEFGHIJKLMNOPQRSTUVWXYZabcdefghijklmnopqrstuvwxyz0123456789+/''"

definition sextet :: "nat \<Rightarrow> char" where
  "sextet n = base64abc ! (n mod 64)"

fun encodeBase64 :: "string \<Rightarrow> string" where
  "encodeBase64 [] = []"
| "encodeBase64 [a] =
     (let n = of_char a * 65536
      in [sextet (n div 262144), sextet (n div 4096), CHR ''='', CHR ''=''])"
| "encodeBase64 [a, b] =
     (let n = of_char a * 65536 + of_char b * 256
      in [sextet (n div 262144), sextet (n div 4096), sextet (n div 64), CHR ''=''])"
| "encodeBase64 (a # b # c # rest) =
     (let n = of_char a * 65536 + of_char b * 256 + of_char c
      in [sextet (n div 262144), sextet (n div 4096), sextet (n div 64), sextet n]
         @ encodeBase64 rest)"

text \<open>
  Modelled from the spec: the inverse reading, four characters to three octets, \<open>None\<close>
  on a character outside the alphabet or a length that is not a multiple of four.
\<close>

fun index_of :: "'a \<Rightarrow> 'a list \<Rightarrow> nat option" where
  "index_of x [] = None"
| "index_of x (y # ys) = (if x = y then Some 0 else map_option Suc (index_of x ys))"

definition unsextet :: "char \<Rightarrow> nat option" where
  "unsextet c = index_of c base64abc"

definition octet :: "nat \<Rightarrow> char" where
  "octet n = char_of (n mod 256)"

fun decodeBase64 :: "string \<Rightarrow> string option" where
  "decodeBase64 [] = Some []"
| "decodeBase64 (a # b # c # d # rest) =
     (if c = CHR ''='' \<and> d = CHR ''='' \<and> rest = [] then
        (case (unsextet a, unsextet b) of
           (Some x, Some y) \<Rightarrow> Some [octet ((x * 64 + y) div 16)]
         | _ \<Rightarrow> None)
      else if d = CHR ''='' \<and> rest = [] then
        (case (unsextet a, unsextet b, unsextet c) of
           (Some x, Some y, Some z) \<Rightarrow>
             (let n = (x * 64 + y) * 64 + z in Some [octet (n div 1024), octet (n div 4)])
         | _ \<Rightarrow> None)
      else
        (case (unsextet a, unsextet b, unsextet c, unsextet d) of
           (Some x, Some y, Some z, Some w) \<Rightarrow>
             (let n = ((x * 64 + y) * 64 + z) * 64 + w
              in map_option (\<lambda>r. [octet (n div 65536), octet (n div 256), octet n] @ r)
                   (decodeBase64 rest))
         | _ \<Rightarrow> None))"
| "decodeBase64 (a # rest) = None"

definition restore_padding :: "string \<Rightarrow> string" where
  "restore_padding s = s @ replicate ((4 - length s mod 4) mod 4) (CHR ''='')"

section \<open>Team view\<close>

definition filterObj :: json where
  "filterObj =
     JObject [(''and'',
       JArray [JObject [(''assignee'',
         JObject [(''or'',
           JArray [JObject [(''isMe'', JObject [(''eq'', JBool True)])]])])]])]"

text \<open>The constant \<^verbatim>\<open>filter\<close> of \<^verbatim>\<open>openTeamAssigneeView\<close>, with \<^verbatim>\<open>replace(/=/g, "")\<close>.\<close>

definition filter_str :: string where
  "filter_str = filter (\<lambda>c. c \<noteq> CHR ''='') (encodeBase64 (JSON_stringify filterObj))"

definition openTeamAssigneeView :: "env \<Rightarrow> open_options \<Rightarrow> unit run" where
  "openTeamAssigneeView E options =
     (case js_truthy (getTeamKey E) of
        None \<Rightarrow>
          ([ConsoleError ''Could not determine team id from configuration or directory name.''],
           Exited 1)
      | Some teamId \<Rightarrow>
          (case js_truthy (getOption E ''workspace'') of
             None \<Rightarrow> ([ConsoleError workspace_missing], Exited 1)
           | Some workspace \<Rightarrow>
               (let url = ''https://linear.app/'' @ workspace @ ''/team/'' @ teamId
                          @ ''/active?filter='' @ filter_str
                in ([OpenCall url (open_target options)],
                    case os_open E url (open_target options) of
                      Inl e \<Rightarrow> Threw e
                    | Inr u \<Rightarrow> Returned ()))))"

section \<open>VCS command adapter\<close>

definition checkoutBranch :: "env \<Rightarrow> string \<Rightarrow> bool \<Rightarrow> bool run" where
  "checkoutBranch E branchName preferGraphite =
     (if preferGraphite then
        (let process = \<lparr>cmd_exe = ''gt'', cmd_args = [''checkout'', branchName],
                        cmd_stdio = Inherit\<rparr>
         in case run_command E process of
              Inl e \<Rightarrow> ([Spawn process], Threw e)
            | Inr success \<Rightarrow>
                if success then
                  ([Spawn process,
                    ConsoleLog (check_mark @ '' Switched to '' @ quoted branchName
                                @ '' using Graphite'')],
                   Returned True)
                else ([Spawn process], Returned False))
      else
        (let process = \<lparr>cmd_exe = ''git'', cmd_args = [''checkout'', branchName],
                        cmd_stdio = Piped\<rparr>
         in case run_command E process of
              Inl e \<Rightarrow> ([Spawn process], Threw e)
            | Inr success \<Rightarrow>
                if success then
                  ([Spawn process,
                    ConsoleLog (check_mark @ '' Switched to '' @ quoted branchName)],
                   Returned True)
                else ([Spawn process], Returned False)))"

definition createBranch :: "env \<Rightarrow> string \<Rightarrow> bool \<Rightarrow> string option \<Rightarrow> bool run" where
  "createBranch E branchName preferGraphite gitSourceRef =
     (if preferGraphite then
        (let process = \<lparr>cmd_exe = ''gt'', cmd_args = [''create'', branchName],
                        cmd_stdio = Inherit\<rparr>
         in case run_command E process of
              Inl e \<Rightarrow> ([Spawn process], Threw e)
            | Inr success \<Rightarrow>
                if success then
                  ([Spawn process,
                    ConsoleLog (check_mark @ '' Created and switched to branch ''
                                @ quoted branchName @ '' using Graphite'')],
                   Returned True)
                else ([Spawn process], Returned False))
      else
        (let process = \<lparr>cmd_exe = ''git'',
                        cmd_args = [''checkout'', ''-b'', branchName,
                                    js_or gitSourceRef ''HEAD''],
                        cmd_stdio = Piped\<rparr>
         in case run_command E process of
              Inl e \<Rightarrow> ([Spawn process], Threw e)
            | Inr success \<Rightarrow>
                if success then
                  ([Spawn process,
                    ConsoleLog (check_mark @ '' Created and switched to branch ''
                                @ quoted branchName)],
                   Returned True)
                else ([Spawn process], Returned False)))"

section \<open>Branch resolver\<close>

text \<open>The name \<^verbatim>\<open>`${baseName}-${suffix}`\<close>.\<close>

definition suffixed :: "string \<Rightarrow> nat \<Rightarrow> string" where
  "suffixed baseName suffix = baseName @ ''-'' @ number_to_string suffix"

text \<open>
  The \<^verbatim>\<open>while\<close> loop of \<^verbatim>\<open>findAvailableBranchName\<close>, on its two variables, with the
  probes made so far. The loop has no bound, so a run that never leaves it is \<open>None\<close>.
\<close>

partial_function (option) findAvailableBranchName_while ::
  "env \<Rightarrow> string \<Rightarrow> nat \<Rightarrow> string \<Rightarrow> event list \<Rightarrow> (event list \<times> string) option" where
  "findAvailableBranchName_while E baseName suffix newBranch tr =
     (if branchExists E newBranch then
        findAvailableBranchName_while E baseName (suffix + 1)
          (suffixed baseName (suffix + 1)) (tr @ [BranchExistsCall newBranch])
      else Some (tr @ [BranchExistsCall newBranch], newBranch))"

definition findAvailableBranchName :: "env \<Rightarrow> string \<Rightarrow> (event list \<times> string) option" where
  "findAvailableBranchName E baseName =
     findAvailableBranchName_while E baseName 1 (suffixed baseName 1) []"

section \<open>Workflow orchestrator\<close>

definition exists_message :: "string \<Rightarrow> string" where
  "exists_message branchName =
     ''Branch '' @ branchName @ '' already exists. What would you like to do?''"

definition exists_options :: "(string \<times> string) list" where
  "exists_options =
     [(''Switch to existing branch'', ''switch''),
      (''Create new branch with suffix'', ''create'')]"

text \<open>Lines 163 to 183 of the source: the branch operation and its flag.\<close>

definition startWorkOnIssue_branch ::
  "env \<Rightarrow> string \<Rightarrow> bool \<Rightarrow> string option \<Rightarrow> bool run option" where
  "startWorkOnIssue_branch E branchName preferGraphite gitSourceRef =
     (if branchExists E branchName then
        (let asked = [BranchExistsCall branchName,
                      SelectPrompt (exists_message branchName) exists_options];
             answer = select_prompt E (exists_message branchName) exists_options
         in if answer = ''switch'' then
              Some (prepend asked (checkoutBranch E branchName preferGraphite))
            else
              (case findAvailableBranchName E branchName of
                 None \<Rightarrow> None
               | Some (probes, newBranch) \<Rightarrow>
                   Some (prepend (asked @ probes)
                           (createBranch E newBranch preferGraphite gitSourceRef))))
      else
        Some (prepend [BranchExistsCall branchName]
                (createBranch E branchName preferGraphite gitSourceRef)))"

text \<open>Lines 185 to 200: the issue-state update, inside its \<^verbatim>\<open>try\<close> block.\<close>

definition startWorkOnIssue_update :: "env \<Rightarrow> string \<Rightarrow> string \<Rightarrow> bool \<Rightarrow> unit run" where
  "startWorkOnIssue_update E issueId teamId branchOperationSucceeded =
     (if branchOperationSucceeded then
        (case getStartedState E teamId of
           Inl error \<Rightarrow>
             ([GetStartedStateCall teamId,
               ConsoleErrorWith ''Failed to update issue state:'' error],
              Returned ())
         | Inr state \<Rightarrow>
             if issueId = [] then
               ([GetStartedStateCall teamId, ConsoleError ''No issue ID resolved''],
                Exited 1)
             else
               (case updateIssueState E issueId (state_id state) of
                  Inl error \<Rightarrow>
                    ([GetStartedStateCall teamId,
                      UpdateIssueStateCall issueId (state_id state),
                      ConsoleErrorWith ''Failed to update issue state:'' error],
                     Returned ())
                | Inr u \<Rightarrow>
                    ([GetStartedStateCall teamId,
                      UpdateIssueStateCall issueId (state_id state),
                      ConsoleLog (check_mark @ '' Issue state updated to ''
                                  @ quoted (state_name state))],
                     Returned ())))
      else
        ([ConsoleLog ''Branch operation failed - issue state not updated''], Returned ()))"

definition startWorkOnIssue ::
  "env \<Rightarrow> string \<Rightarrow> string \<Rightarrow> string option \<Rightarrow> unit run option" where
  "startWorkOnIssue E issueId teamId gitSourceRef =
     (case fetchIssueDetails E issueId True of
        Inl e \<Rightarrow> Some ([FetchIssueDetailsCall issueId True], Threw e)
      | Inr details \<Rightarrow>
          (let branchName = issue_branchName details;
               preferGraphite = (getOption E ''prefer_graphite'' = Some ''true'')
           in case startWorkOnIssue_branch E branchName preferGraphite gitSourceRef of
                None \<Rightarrow> None
              | Some r \<Rightarrow>
                  Some (prepend [FetchIssueDetailsCall issueId True]
                          (and_then r (startWorkOnIssue_update E issueId teamId)))))"

section \<open>Reading a trace\<close>

fun spawned :: "event list \<Rightarrow> command list" where
  "spawned [] = []"
| "spawned (Spawn c # tr) = c # spawned tr"
| "spawned (e # tr) = spawned tr"

fun probed :: "event list \<Rightarrow> string list" where
  "probed [] = []"
| "probed (BranchExistsCall b # tr) = b # probed tr"
| "probed (e # tr) = probed tr"

fun opened :: "event list \<Rightarrow> (string \<times> string option) list" where
  "opened [] = []"
| "opened (OpenCall url a # tr) = (url, a) # opened tr"
| "opened (e # tr) = opened tr"

fun updates :: "event list \<Rightarrow> (string \<times> string) list" where
  "updates [] = []"
| "updates (UpdateIssueStateCall i s # tr) = (i, s) # updates tr"
| "updates (e # tr) = updates tr"

fun prompts :: "event list \<Rightarrow> string list" where
  "prompts [] = []"
| "prompts (SelectPrompt m os # tr) = m # prompts tr"
| "prompts (e # tr) = prompts tr"

section \<open>Example environments\<close>

text \<open>
  A tracker with one issue \<open>ENG-123\<close> whose branch name is \<open>eng-123\<close>, a repository
  without that branch, plain git, and collaborators that all succeed.
\<close>

definition example_env :: env where
  "example_env =
     \<lparr>getOption = (\<lambda>k. if k = ''workspace'' then Some ''acme''
                       else if k = ''prefer_graphite'' then Some ''false'' else None),
      getTeamKey = Some ''ENG'',
      getIssueIdentifier = (\<lambda>p. case p of None \<Rightarrow> Some ''ENG-123'' | Some x \<Rightarrow> Some x),
      fetchIssueDetails = (\<lambda>i b. Inr \<lparr>issue_branchName = ''eng-123''\<rparr>),
      getStartedState = (\<lambda>t. Inr \<lparr>state_id = ''st-1'', state_name = ''In Progress''\<rparr>),
      updateIssueState = (\<lambda>i s. Inr ()),
      branchExists = (\<lambda>b. False),
      select_prompt = (\<lambda>m os. ''create''),
      run_command = (\<lambda>c. Inr True),
      os_open = (\<lambda>u a. Inr ())\<rparr>"

definition example_trace :: "event list" where
  "example_trace =
     [FetchIssueDetailsCall ''ENG-123'' True,
      BranchExistsCall ''eng-123'',
      Spawn \<lparr>cmd_exe = ''git'', cmd_args = [''checkout'', ''-b'', ''eng-123'', ''HEAD''],
             cmd_stdio = Piped\<rparr>,
      ConsoleLog (check_mark @ '' Created and switched to branch '' @ quoted ''eng-123''),
      GetStartedStateCall ''ENG'',
      UpdateIssueStateCall ''ENG-123'' ''st-1'',
      ConsoleLog (check_mark @ '' Issue state updated to '' @ quoted ''In Progress'')]"

definition taken_env :: env where
  "taken_env =
     example_env\<lparr>branchExists := (\<lambda>b. b \<in> set [''eng-123'', ''eng-123-1'', ''eng-123-2''])\<rparr>"

definition full_env :: env where
  "full_env = example_env\<lparr>branchExists := (\<lambda>b. True)\<rparr>"

definition unconfigured_env :: env where
  "unconfigured_env = example_env\<lparr>getOption := (\<lambda>k. None)\<rparr>"

definition offline_env :: env where
  "offline_env = example_env\<lparr>updateIssueState := (\<lambda>i s. Inl (Error ''network''))\<rparr>"

definition graphite_env :: env where
  "graphite_env =
     example_env\<lparr>getOption := (\<lambda>k. if k = ''prefer_graphite'' then Some ''true'' else None)\<rparr>"

definition graphite_trace :: "event list" where
  "graphite_trace =
     [FetchIssueDetailsCall ''ENG-123'' True,
      BranchExistsCall ''eng-123'',
      Spawn \<lparr>cmd_exe = ''gt'', cmd_args = [''create'', ''eng-123''], cmd_stdio = Inherit\<rparr>,
      ConsoleLog (check_mark @ '' Created and switched to branch '' @ quoted ''eng-123''
                  @ '' using Graphite''),
      GetStartedStateCall ''ENG'',
      UpdateIssueStateCall ''ENG-123'' ''st-1'',
      ConsoleLog (check_mark @ '' Issue state updated to '' @ quoted ''In Progress'')]"

definition no_state_env :: env where
  "no_state_env = example_env\<lparr>getStartedState := (\<lambda>t. Inl (Error ''network''))\<rparr>"

definition no_state_trace :: "event list" where
  "no_state_trace =
     [FetchIssueDetailsCall [] True,
      BranchExistsCall ''eng-123'',
      Spawn \<lparr>cmd_exe = ''git'', cmd_args = [''checkout'', ''-b'', ''eng-123'', ''HEAD''],
             cmd_stdio = Piped\<rparr>,
      ConsoleLog (check_mark @ '' Created and switched to branch '' @ quoted ''eng-123''),
      GetStartedStateCall ''ENG'',
      ConsoleErrorWith ''Failed to update issue state:'' (Error ''network'')]"

definition failing_env :: env where
  "failing_env = example_env\<lparr>run_command := (\<lambda>c. Inr False)\<rparr>"

definition failing_trace :: "event list" where
  "failing_trace =
     [FetchIssueDetailsCall ''ENG-123'' True,
      BranchExistsCall ''eng-123'',
      Spawn \<lparr>cmd_exe = ''git'', cmd_args = [''checkout'', ''-b'', ''eng-123'', ''HEAD''],
             cmd_stdio = Piped\<rparr>,
      ConsoleLog ''Branch operation failed - issue state not updated'']"

definition example_branch_trace :: "event list" where
  "example_branch_trace =
     [BranchExistsCall ''eng-123'',
      Spawn \<lparr>cmd_exe = ''git'', cmd_args = [''checkout'', ''-b'', ''eng-123'', ''HEAD''],
             cmd_stdio = Piped\<rparr>,
      ConsoleLog (check_mark @ '' Created and switched to branch '' @ quoted ''eng-123'')]"

section \<open>Reading traces piecewise\<close>

lemma spawned_append: "spawned (a @ b) = spawned a @ spawned b"
  by (induction a rule: spawned.induct) simp_all

lemma probed_append: "probed (a @ b) = probed a @ probed b"
  by (induction a rule: probed.induct) simp_all

lemma opened_append: "opened (a @ b) = opened a @ opened b"
  by (induction a rule: opened.induct) simp_all

lemma updates_append: "updates (a @ b) = updates a @ updates b"
  by (induction a rule: updates.induct) simp_all

lemma prompts_append: "prompts (a @ b) = prompts a @ prompts b"
  by (induction a rule: prompts.induct) simp_all

lemmas trace_append = spawned_append probed_append opened_append updates_append prompts_append

lemma updates_empty_iff: "updates tr = [] \<longleftrightarrow> (\<forall>i s. UpdateIssueStateCall i s \<notin> set tr)"
  by (induction tr rule: updates.induct) auto

lemma spawned_empty_iff: "spawned tr = [] \<longleftrightarrow> (\<forall>c. Spawn c \<notin> set tr)"
  by (induction tr rule: spawned.induct) auto

lemma probes_only:
  "spawned (map BranchExistsCall ps) = [] \<and> updates (map BranchExistsCall ps) = []
   \<and> prompts (map BranchExistsCall ps) = [] \<and> probed (map BranchExistsCall ps) = ps"
  by (induction ps) simp_all

section \<open>The branch commands\<close>

lemma createBranch_shape:
  "\<exists>c log. fst (createBranch E b pg ref) = Spawn c # log
     \<and> spawned log = [] \<and> updates log = [] \<and> probed log = [] \<and> prompts log = []
     \<and> (case run_command E c of
           Inl e \<Rightarrow> snd (createBranch E b pg ref) = Threw e
         | Inr ok \<Rightarrow> snd (createBranch E b pg ref) = Returned ok)
     \<and> c = (if pg then \<lparr>cmd_exe = ''gt'', cmd_args = [''create'', b], cmd_stdio = Inherit\<rparr>
            else \<lparr>cmd_exe = ''git'', cmd_args = [''checkout'', ''-b'', b, js_or ref ''HEAD''],
                  cmd_stdio = Piped\<rparr>)"
  by (simp add: createBranch_def Let_def split: sum.split)

lemma checkoutBranch_shape:
  "\<exists>c log. fst (checkoutBranch E b pg) = Spawn c # log
     \<and> spawned log = [] \<and> updates log = [] \<and> probed log = [] \<and> prompts log = []
     \<and> (case run_command E c of
           Inl e \<Rightarrow> snd (checkoutBranch E b pg) = Threw e
         | Inr ok \<Rightarrow> snd (checkoutBranch E b pg) = Returned ok)
     \<and> c = \<lparr>cmd_exe = (if pg then ''gt'' else ''git''), cmd_args = [''checkout'', b],
             cmd_stdio = (if pg then Inherit else Piped)\<rparr>"
  by (simp add: checkoutBranch_def Let_def split: sum.split)

section \<open>The suffix search\<close>

lemma while_found:
  "\<not> branchExists E (suffixed b (s + d)) \<Longrightarrow> (\<forall>k<d. branchExists E (suffixed b (s + k))) \<Longrightarrow>
   findAvailableBranchName_while E b s (suffixed b s) tr =
     Some (tr @ map (\<lambda>k. BranchExistsCall (suffixed b k)) [s..<Suc (s + d)], suffixed b (s + d))"
proof (induction d arbitrary: s tr)
  case 0
  then show ?case by (subst findAvailableBranchName_while.simps) simp
next
  case (Suc d)
  have here: "branchExists E (suffixed b s)" using Suc.prems(2) [rule_format, of 0] by simp
  have later: "\<forall>k<d. branchExists E (suffixed b (Suc s + k))"
    using Suc.prems(2) by (metis Suc_less_eq add_Suc_shift)
  have free: "\<not> branchExists E (suffixed b (Suc s + d))" using Suc.prems(1) by simp
  have range: "[s..<Suc (s + Suc d)] = s # [Suc s..<Suc (Suc s + d)]"
    by (simp add: upt_conv_Cons del: upt_Suc)
  have "findAvailableBranchName_while E b s (suffixed b s) tr =
        findAvailableBranchName_while E b (Suc s) (suffixed b (Suc s))
          (tr @ [BranchExistsCall (suffixed b s)])"
    using here by (subst findAvailableBranchName_while.simps) simp
  also have "\<dots> = Some ((tr @ [BranchExistsCall (suffixed b s)]) @
       map (\<lambda>k. BranchExistsCall (suffixed b k)) [Suc s..<Suc (Suc s + d)], suffixed b (Suc s + d))"
    by (rule Suc.IH [OF free later])
  finally show ?case by (simp only: range) simp
qed

lemma while_returns:
  assumes ret: "findAvailableBranchName_while E b s nb tr = Some r"
  shows "nb = suffixed b s \<longrightarrow> (\<exists>k\<ge>s. \<not> branchExists E (suffixed b k))"
proof (rule findAvailableBranchName_while.raw_induct
    [where P = "\<lambda>E b s nb tr r. nb = suffixed b s \<longrightarrow> (\<exists>k\<ge>s. \<not> branchExists E (suffixed b k))",
     OF _ ret])
  fix f :: "env \<Rightarrow> string \<Rightarrow> nat \<Rightarrow> string \<Rightarrow> event list \<Rightarrow> (event list \<times> string) option"
    and E b s nb tr and r :: "event list \<times> string"
  assume IH: "\<And>E b s nb tr r. f E b s nb tr = Some r \<Longrightarrow>
      nb = suffixed b s \<longrightarrow> (\<exists>k\<ge>s. \<not> branchExists E (suffixed b k))"
    and step: "(if branchExists E nb
      then f E b (s + 1) (suffixed b (s + 1)) (tr @ [BranchExistsCall nb])
      else Some (tr @ [BranchExistsCall nb], nb)) = Some r"
  show "nb = suffixed b s \<longrightarrow> (\<exists>k\<ge>s. \<not> branchExists E (suffixed b k))"
  proof (cases "branchExists E nb")
    case True
    with step have "f E b (s + 1) (suffixed b (s + 1)) (tr @ [BranchExistsCall nb]) = Some r"
      by simp
    from IH [OF this] obtain k where "k \<ge> s + 1" "\<not> branchExists E (suffixed b k)" by auto
    then have "k \<ge> s \<and> \<not> branchExists E (suffixed b k)" by simp
    then show ?thesis by blast
  next
    case False
    then show ?thesis by auto
  qed
qed

lemma findAvailableBranchName_least:
  assumes n: "1 \<le> n" and free: "\<not> branchExists E (suffixed b n)"
    and taken: "\<forall>k. 1 \<le> k \<and> k < n \<longrightarrow> branchExists E (suffixed b k)"
  shows "findAvailableBranchName E b =
         Some (map (\<lambda>k. BranchExistsCall (suffixed b k)) [1..<Suc n], suffixed b n)"
proof -
  from n obtain d where d: "n = 1 + d" by (metis le_iff_add)
  have a: "\<not> branchExists E (suffixed b (1 + d))" using free d by simp
  have b: "\<forall>k<d. branchExists E (suffixed b (1 + k))" using taken d by simp
  show ?thesis
    unfolding findAvailableBranchName_def using while_found [OF a b, of "[]"] d by simp
qed

lemma findAvailableBranchName_result:
  assumes "findAvailableBranchName E b = Some r"
  shows "\<exists>n\<ge>1. \<not> branchExists E (suffixed b n)
           \<and> (\<forall>k. 1 \<le> k \<and> k < n \<longrightarrow> branchExists E (suffixed b k))
           \<and> r = (map (\<lambda>k. BranchExistsCall (suffixed b k)) [1..<Suc n], suffixed b n)"
proof -
  let ?free = "\<lambda>k. 1 \<le> k \<and> \<not> branchExists E (suffixed b k)"
  from while_returns [OF assms [unfolded findAvailableBranchName_def]]
  have "\<exists>k\<ge>1. \<not> branchExists E (suffixed b k)" by simp
  then obtain k where k: "?free k" by blast
  define n where "n = (LEAST k. ?free k)"
  have n: "?free n" unfolding n_def using k by (rule LeastI)
  have least: "\<not> ?free j" if "j < n" for j
    using that unfolding n_def by (rule not_less_Least)
  have taken: "\<forall>j. 1 \<le> j \<and> j < n \<longrightarrow> branchExists E (suffixed b j)"
    using least by blast
  have "findAvailableBranchName E b =
        Some (map (\<lambda>k. BranchExistsCall (suffixed b k)) [1..<Suc n], suffixed b n)"
    by (rule findAvailableBranchName_least [OF conjunct1 [OF n] conjunct2 [OF n] taken])
  with assms have r: "r = (map (\<lambda>k. BranchExistsCall (suffixed b k)) [1..<Suc n], suffixed b n)"
    by simp
  show ?thesis
    by (rule exI [of _ n]) (use n taken r in blast)
qed

section \<open>The shape of a run\<close>

lemma branch_absent:
  "\<not> branchExists E b \<Longrightarrow>
   startWorkOnIssue_branch E b pg ref =
     Some (prepend [BranchExistsCall b] (createBranch E b pg ref))"
  by (simp add: startWorkOnIssue_branch_def)

lemma branch_switch:
  "branchExists E b \<Longrightarrow> select_prompt E (exists_message b) exists_options = ''switch'' \<Longrightarrow>
   startWorkOnIssue_branch E b pg ref =
     Some (prepend [BranchExistsCall b, SelectPrompt (exists_message b) exists_options]
             (checkoutBranch E b pg))"
  by (simp add: startWorkOnIssue_branch_def)

lemma branch_create:
  "branchExists E b \<Longrightarrow> select_prompt E (exists_message b) exists_options \<noteq> ''switch'' \<Longrightarrow>
   findAvailableBranchName E b = Some (probes, nb) \<Longrightarrow>
   startWorkOnIssue_branch E b pg ref =
     Some (prepend ([BranchExistsCall b, SelectPrompt (exists_message b) exists_options] @ probes)
             (createBranch E nb pg ref))"
  by (simp add: startWorkOnIssue_branch_def)

lemma branch_shape:
  assumes "startWorkOnIssue_branch E b pg ref = Some r"
  shows "\<exists>pre c log. fst r = pre @ Spawn c # log
           \<and> spawned pre = [] \<and> updates pre = [] \<and> spawned log = [] \<and> updates log = []
           \<and> (case run_command E c of Inl e \<Rightarrow> snd r = Threw e | Inr ok \<Rightarrow> snd r = Returned ok)
           \<and> cmd_exe c = (if pg then ''gt'' else ''git'')"
proof (cases "branchExists E b")
  case False
  from createBranch_shape [of E b pg ref] obtain c log where
    "fst (createBranch E b pg ref) = Spawn c # log" "spawned log = []" "updates log = []"
    "case run_command E c of Inl e \<Rightarrow> snd (createBranch E b pg ref) = Threw e
       | Inr ok \<Rightarrow> snd (createBranch E b pg ref) = Returned ok"
    "cmd_exe c = (if pg then ''gt'' else ''git'')"
    by auto
  with assms branch_absent [OF False, of pg ref] show ?thesis
    by - (rule exI [of _ "[BranchExistsCall b]"], rule exI [of _ c], rule exI [of _ log],
       auto simp: prepend_def split: sum.splits)
next
  case True
  let ?asked = "[BranchExistsCall b, SelectPrompt (exists_message b) exists_options]"
  show ?thesis
  proof (cases "select_prompt E (exists_message b) exists_options = ''switch''")
    case sw: True
    from checkoutBranch_shape [of E b pg] obtain c log where
      "fst (checkoutBranch E b pg) = Spawn c # log" "spawned log = []" "updates log = []"
      "case run_command E c of Inl e \<Rightarrow> snd (checkoutBranch E b pg) = Threw e
         | Inr ok \<Rightarrow> snd (checkoutBranch E b pg) = Returned ok"
      "cmd_exe c = (if pg then ''gt'' else ''git'')"
      by auto
    with assms branch_switch [OF True sw, of pg ref] show ?thesis
      by - (rule exI [of _ ?asked], rule exI [of _ c], rule exI [of _ log],
         auto simp: prepend_def split: sum.splits)
  next
    case cr: False
    from assms True cr obtain probes nb where
      found: "findAvailableBranchName E b = Some (probes, nb)"
      by (auto simp: startWorkOnIssue_branch_def split: option.splits)
    from findAvailableBranchName_result [OF found] obtain n where
      "probes = map (\<lambda>k. BranchExistsCall (suffixed b k)) [1..<Suc n]"
      by auto
    then have "probes = map BranchExistsCall (map (suffixed b) [1..<Suc n])"
      by (simp add: comp_def)
    then have ps: "spawned probes = []" "updates probes = []"
      by (simp_all only: probes_only)
    from createBranch_shape [of E nb pg ref] obtain c log where
      "fst (createBranch E nb pg ref) = Spawn c # log" "spawned log = []" "updates log = []"
      "case run_command E c of Inl e \<Rightarrow> snd (createBranch E nb pg ref) = Threw e
         | Inr ok \<Rightarrow> snd (createBranch E nb pg ref) = Returned ok"
      "cmd_exe c = (if pg then ''gt'' else ''git'')"
      by auto
    with assms branch_create [OF True cr found, of pg ref] ps show ?thesis
      by - (rule exI [of _ "?asked @ probes"], rule exI [of _ c], rule exI [of _ log],
         auto simp: prepend_def trace_append split: sum.splits)
  qed
qed

lemma run_shape:
  assumes run: "startWorkOnIssue E i t ref = Some (tr, out)"
    and fetched: "fetchIssueDetails E i True = Inr d"
  shows "\<exists>pre c log rest. tr = pre @ Spawn c # log @ rest
           \<and> spawned pre = [] \<and> updates pre = [] \<and> spawned log = [] \<and> updates log = []
           \<and> (case run_command E c of
                 Inl e \<Rightarrow> rest = [] \<and> out = Threw e
               | Inr ok \<Rightarrow> (rest, out) = startWorkOnIssue_update E i t ok)
           \<and> cmd_exe c = (if getOption E ''prefer_graphite'' = Some ''true'' then ''gt''
                          else ''git'')"
proof -
  let ?pg = "getOption E ''prefer_graphite'' = Some ''true''"
  let ?U = "startWorkOnIssue_update E i t"
  obtain r where br: "startWorkOnIssue_branch E (issue_branchName d) ?pg ref = Some r"
    using run fetched by (cases "startWorkOnIssue_branch E (issue_branchName d) ?pg ref")
      (simp_all add: startWorkOnIssue_def)
  have tr: "tr = FetchIssueDetailsCall i True # fst (and_then r ?U)"
    and out: "out = snd (and_then r ?U)"
    using run fetched br by (simp_all add: startWorkOnIssue_def prepend_def)
  from branch_shape [OF br] obtain pre c log where
    sh: "fst r = pre @ Spawn c # log" "spawned pre = []" "updates pre = []"
        "spawned log = []" "updates log = []"
    and res: "case run_command E c of Inl e \<Rightarrow> snd r = Threw e | Inr ok \<Rightarrow> snd r = Returned ok"
    and exe: "cmd_exe c = (if ?pg then ''gt'' else ''git'')"
    by blast
  show ?thesis
  proof (cases "run_command E c")
    case (Inl e)
    with res have "snd r = Threw e" by simp
    then have "and_then r ?U = (fst r, Threw e)" by (simp add: and_then_def)
    with tr out sh exe Inl show ?thesis
      by - (rule exI [of _ "FetchIssueDetailsCall i True # pre"], rule exI [of _ c],
            rule exI [of _ log], rule exI [of _ "[]"], simp)
  next
    case (Inr ok)
    with res have "snd r = Returned ok" by simp
    then have "and_then r ?U = (fst r @ fst (?U ok), snd (?U ok))"
      by (simp add: and_then_def prepend_def)
    with tr out sh exe Inr show ?thesis
      by - (rule exI [of _ "FetchIssueDetailsCall i True # pre"], rule exI [of _ c],
            rule exI [of _ log], rule exI [of _ "fst (?U ok)"], simp)
  qed
qed

lemma update_quiet:
  "spawned (fst (startWorkOnIssue_update E i t ok)) = []"
  "probed (fst (startWorkOnIssue_update E i t ok)) = []"
  "prompts (fst (startWorkOnIssue_update E i t ok)) = []"
  by (simp_all add: startWorkOnIssue_update_def split: sum.split)

lemma update_skipped:
  "startWorkOnIssue_update E i t False =
     ([ConsoleLog ''Branch operation failed - issue state not updated''], Returned ())"
  by (simp add: startWorkOnIssue_update_def)

lemma fetch_threw:
  "fetchIssueDetails E i True = Inl e \<Longrightarrow>
   startWorkOnIssue E i t ref = Some ([FetchIssueDetailsCall i True], Threw e)"
  by (simp add: startWorkOnIssue_def)

lemma example_run:
  "startWorkOnIssue example_env ''ENG-123'' ''ENG'' None = Some (example_trace, Returned ())"
  by (simp add: startWorkOnIssue_def startWorkOnIssue_branch_def createBranch_def
      startWorkOnIssue_update_def and_then_def prepend_def example_env_def example_trace_def
      js_or_def js_truthy_def Let_def)

section \<open>Runs, step by step\<close>

lemma and_then_prepend: "and_then (prepend tr m) f = prepend tr (and_then m f)"
  by (cases "snd m") (simp_all add: and_then_def prepend_def)

lemma prepend_prepend: "prepend a (prepend b m) = prepend (a @ b) m"
  by (simp add: prepend_def)

lemma run_absent:
  assumes "fetchIssueDetails E i True = Inr d" and "\<not> branchExists E (issue_branchName d)"
  shows "startWorkOnIssue E i t ref =
         Some (prepend [FetchIssueDetailsCall i True, BranchExistsCall (issue_branchName d)]
                 (and_then (createBranch E (issue_branchName d)
                              (getOption E ''prefer_graphite'' = Some ''true'') ref)
                    (startWorkOnIssue_update E i t)))"
  using assms
  by (simp add: startWorkOnIssue_def branch_absent and_then_prepend prepend_prepend)


lemma created_then_update:
  fixes E b pg ref i t
  defines "m \<equiv> and_then (createBranch E b pg ref) (startWorkOnIssue_update E i t)"
  shows "spawned (fst m) =
           [if pg then \<lparr>cmd_exe = ''gt'', cmd_args = [''create'', b], cmd_stdio = Inherit\<rparr>
            else \<lparr>cmd_exe = ''git'', cmd_args = [''checkout'', ''-b'', b, js_or ref ''HEAD''],
                  cmd_stdio = Piped\<rparr>]"
    and "probed (fst m) = []" and "prompts (fst m) = []"
proof -
  from createBranch_shape [of E b pg ref] obtain c log where
    sh: "fst (createBranch E b pg ref) = Spawn c # log" "spawned log = []" "probed log = []"
        "prompts log = []"
    and c: "c = (if pg then \<lparr>cmd_exe = ''gt'', cmd_args = [''create'', b], cmd_stdio = Inherit\<rparr>
            else \<lparr>cmd_exe = ''git'', cmd_args = [''checkout'', ''-b'', b, js_or ref ''HEAD''],
                  cmd_stdio = Piped\<rparr>)"
    by blast
  have "fst m = Spawn c # log \<or>
        (\<exists>ok. fst m = (Spawn c # log) @ fst (startWorkOnIssue_update E i t ok))"
    unfolding m_def using sh(1)
    by (cases "snd (createBranch E b pg ref)") (auto simp: and_then_def prepend_def)
  then have "spawned (fst m) = [c] \<and> probed (fst m) = [] \<and> prompts (fst m) = []"
    using sh by (auto simp: trace_append update_quiet)
  then show "spawned (fst m) =
           [if pg then \<lparr>cmd_exe = ''gt'', cmd_args = [''create'', b], cmd_stdio = Inherit\<rparr>
            else \<lparr>cmd_exe = ''git'', cmd_args = [''checkout'', ''-b'', b, js_or ref ''HEAD''],
                  cmd_stdio = Piped\<rparr>]"
    and "probed (fst m) = []" and "prompts (fst m) = []"
    using c by simp_all
qed

lemma suffixed_examples:
  "suffixed ''eng-123'' 1 = ''eng-123-1''"
  "suffixed ''eng-123'' 2 = ''eng-123-2''"
  "suffixed ''eng-123'' 3 = ''eng-123-3''"
  by (simp_all add: suffixed_def number_to_string.simps digit_char_def)


lemma least_free:
  fixes P :: "nat \<Rightarrow> bool"
  assumes "1 \<le> k" and "\<not> P k"
  shows "\<exists>n\<ge>1. \<not> P n \<and> (\<forall>j. 1 \<le> j \<and> j < n \<longrightarrow> P j)"
proof -
  let ?free = "\<lambda>k. 1 \<le> k \<and> \<not> P k"
  define n where "n = (LEAST k. ?free k)"
  have k: "?free k" using assms by simp
  have n: "?free n" unfolding n_def using k by (rule LeastI)
  have least: "\<not> ?free j" if "j < n" for j
    using that unfolding n_def by (rule not_less_Least)
  then have "\<forall>j. 1 \<le> j \<and> j < n \<longrightarrow> P j" by blast
  with n show ?thesis by blast
qed

lemma filter_text:
  "JSON_stringify filterObj =
     ''{'' @ [CHR 0x22] @ ''and'' @ [CHR 0x22] @ '':[{'' @ [CHR 0x22] @ ''assignee''
     @ [CHR 0x22] @ '':{'' @ [CHR 0x22] @ ''or'' @ [CHR 0x22] @ '':[{'' @ [CHR 0x22]
     @ ''isMe'' @ [CHR 0x22] @ '':{'' @ [CHR 0x22] @ ''eq'' @ [CHR 0x22] @ '':true}}]}}]}''"
  by (simp add: filterObj_def quote_string_def escape_char_def)

lemma filter_str_value:
  "filter_str = ''eyJhbmQiOlt7ImFzc2lnbmVlIjp7Im9yIjpbeyJpc01lIjp7ImVxIjp0cnVlfX1dfX1dfQ''"
  unfolding filter_str_def filter_text
  by (simp add: sextet_def base64abc_def)

lemma filter_padded:
  "restore_padding ''eyJhbmQiOlt7ImFzc2lnbmVlIjp7Im9yIjpbeyJpc01lIjp7ImVxIjp0cnVlfX1dfX1dfQ''
   = ''eyJhbmQiOlt7ImFzc2lnbmVlIjp7Im9yIjpbeyJpc01lIjp7ImVxIjp0cnVlfX1dfX1dfQ==''"
  by (simp add: restore_padding_def numeral_2_eq_2)

lemma filter_decoded:
  "decodeBase64 (restore_padding filter_str) = Some (JSON_stringify filterObj)"
  unfolding filter_str_value filter_padded filter_text
  by (simp add: unsextet_def base64abc_def octet_def char_of_def bit_iff_odd)

lemma filter_parsed: "JSON_parse (JSON_stringify filterObj) = Some filterObj"
  unfolding filter_text
  by (simp add: JSON_parse_def filterObj_def eval_nat_numeral)

lemmas run_defs = startWorkOnIssue_def startWorkOnIssue_branch_def createBranch_def
  checkoutBranch_def startWorkOnIssue_update_def and_then_def prepend_def js_or_def
  js_truthy_def Let_def

lemma run_spawned:
  assumes run: "startWorkOnIssue E i t ref = Some (tr, out)"
    and c: "c \<in> set (spawned tr)"
  shows "\<exists>pre log rest. tr = pre @ Spawn c # log @ rest
           \<and> spawned pre = [] \<and> updates pre = [] \<and> spawned log = [] \<and> updates log = []
           \<and> spawned rest = []
           \<and> (case run_command E c of
                 Inl e \<Rightarrow> rest = [] \<and> out = Threw e
               | Inr ok \<Rightarrow> (rest, out) = startWorkOnIssue_update E i t ok)
           \<and> cmd_exe c = (if getOption E ''prefer_graphite'' = Some ''true'' then ''gt''
                          else ''git'')"
proof (cases "fetchIssueDetails E i True")
  case (Inl e)
  with run c show ?thesis by (auto simp: fetch_threw)
next
  case (Inr d)
  from run_shape [OF run Inr] obtain pre c' log rest where
    tr: "tr = pre @ Spawn c' # log @ rest"
    and quiet: "spawned pre = []" "updates pre = []" "spawned log = []" "updates log = []"
    and res: "case run_command E c' of
                Inl e \<Rightarrow> rest = [] \<and> out = Threw e
              | Inr ok \<Rightarrow> (rest, out) = startWorkOnIssue_update E i t ok"
    and exe: "cmd_exe c' = (if getOption E ''prefer_graphite'' = Some ''true'' then ''gt''
                           else ''git'')"
    by blast
  have rest: "spawned rest = []"
  proof (cases "run_command E c'")
    case (Inl e)
    with res show ?thesis by simp
  next
    case (Inr ok)
    with res have "rest = fst (startWorkOnIssue_update E i t ok)"
      by simp (metis fst_conv)
    then show ?thesis by (simp add: update_quiet)
  qed
  with tr quiet c have "c = c'" by (simp add: trace_append)
  with tr quiet res exe rest show ?thesis
    by - (rule exI [of _ pre], rule exI [of _ log], rule exI [of _ rest], simp)
qed

lemma update_caught:
  assumes "getStartedState E t = Inl e
           \<or> (i \<noteq> [] \<and> (\<exists>st. getStartedState E t = Inr st
                               \<and> updateIssueState E i (state_id st) = Inl e))"
  shows "\<exists>mid. startWorkOnIssue_update E i t True
                 = (mid @ [ConsoleErrorWith ''Failed to update issue state:'' e], Returned ())
               \<and> spawned mid = []"
  using assms
proof
  assume "getStartedState E t = Inl e"
  then show ?thesis
    by - (rule exI [of _ "[GetStartedStateCall t]"], simp add: startWorkOnIssue_update_def)
next
  assume "i \<noteq> [] \<and> (\<exists>st. getStartedState E t = Inr st
                         \<and> updateIssueState E i (state_id st) = Inl e)"
  then obtain st where "i \<noteq> []" "getStartedState E t = Inr st"
    "updateIssueState E i (state_id st) = Inl e" by blast
  then show ?thesis
    by - (rule exI [of _ "[GetStartedStateCall t, UpdateIssueStateCall i (state_id st)]"],
          simp add: startWorkOnIssue_update_def)
qed

lemma graphite_run:
  "startWorkOnIssue graphite_env ''ENG-123'' ''ENG'' None = Some (graphite_trace, Returned ())"
  by (simp add: run_defs graphite_env_def example_env_def graphite_trace_def)

lemma update_done:
  assumes "i \<noteq> []" and "getStartedState E t = Inr st"
  shows "updates (fst (startWorkOnIssue_update E i t True)) = [(i, state_id st)]"
  using assms by (simp add: startWorkOnIssue_update_def split: sum.split)

lemma git_created:
  assumes "run_command E \<lparr>cmd_exe = ''git'',
             cmd_args = [''checkout'', ''-b'', b, js_or ref ''HEAD''], cmd_stdio = Piped\<rparr>
           = Inr True"
  shows "createBranch E b False ref =
         ([Spawn \<lparr>cmd_exe = ''git'', cmd_args = [''checkout'', ''-b'', b, js_or ref ''HEAD''],
                  cmd_stdio = Piped\<rparr>,
           ConsoleLog (check_mark @ '' Created and switched to branch '' @ quoted b)],
          Returned True)"
  using assms by (simp add: createBranch_def)

lemma update_returns:
  "i \<noteq> [] \<Longrightarrow> snd (startWorkOnIssue_update E i t ok) = Returned ()"
  by (simp add: startWorkOnIssue_update_def split: sum.split)

lemma update_exits:
  "getStartedState E t = Inr st \<Longrightarrow>
   startWorkOnIssue_update E [] t True
     = ([GetStartedStateCall t, ConsoleError ''No issue ID resolved''], Exited 1)"
  by (simp add: startWorkOnIssue_update_def)

lemma no_state_run:
  "startWorkOnIssue no_state_env [] ''ENG'' None = Some (no_state_trace, Returned ())"
  by (simp add: run_defs no_state_env_def example_env_def no_state_trace_def)

lemma failing_run:
  "startWorkOnIssue failing_env ''ENG-123'' ''ENG'' None = Some (failing_trace, Returned ())"
  by (simp add: run_defs failing_env_def example_env_def failing_trace_def)

lemma update_needs_success:
  assumes run: "startWorkOnIssue E i t ref = Some (tr, out)"
    and upd: "UpdateIssueStateCall a s \<in> set tr"
  shows "\<exists>pre c post. tr = pre @ Spawn c # post \<and> run_command E c = Inr True
           \<and> UpdateIssueStateCall a s \<in> set post
           \<and> updates pre = [] \<and> spawned pre = [] \<and> spawned post = []"
proof (cases "fetchIssueDetails E i True")
  case (Inl e)
  with run upd show ?thesis by (auto simp: fetch_threw)
next
  case (Inr d)
  from run_shape [OF run Inr] obtain pre c log rest where
    tr: "tr = pre @ Spawn c # log @ rest"
    and quiet: "spawned pre = []" "updates pre = []" "spawned log = []" "updates log = []"
    and res: "case run_command E c of
                Inl e \<Rightarrow> rest = [] \<and> out = Threw e
              | Inr ok \<Rightarrow> (rest, out) = startWorkOnIssue_update E i t ok"
    by blast
  from upd tr quiet have in_rest: "UpdateIssueStateCall a s \<in> set rest"
    by (auto simp: updates_empty_iff)
  have ok: "run_command E c = Inr True"
  proof (cases "run_command E c")
    case (Inl e)
    with res in_rest show ?thesis by simp
  next
    case (Inr ok)
    with res in_rest show ?thesis by (cases ok) (auto simp: update_skipped)
  qed
  with res have "rest = fst (startWorkOnIssue_update E i t True)"
    by (simp add: fst_def split: prod.splits) (metis fst_conv)
  then have "spawned (log @ rest) = []" using quiet by (simp add: trace_append update_quiet)
  with tr ok in_rest quiet show ?thesis
    by - (rule exI [of _ pre], rule exI [of _ c], rule exI [of _ "log @ rest"], simp)
qed

lemma failure_skips_update:
  assumes run: "startWorkOnIssue E i t ref = Some (tr, out)"
    and c: "c \<in> set (spawned tr)" and failed: "run_command E c \<noteq> Inr True"
  shows "updates tr = []"
proof -
  from run_spawned [OF run c] obtain pre log rest where
    tr: "tr = pre @ Spawn c # log @ rest"
    and quiet: "updates pre = []" "updates log = []"
    and res: "case run_command E c of
                Inl e \<Rightarrow> rest = [] \<and> out = Threw e
              | Inr ok \<Rightarrow> (rest, out) = startWorkOnIssue_update E i t ok"
    by blast
  have "updates rest = []"
  proof (cases "run_command E c")
    case (Inl e)
    with res show ?thesis by simp
  next
    case (Inr ok)
    with failed have "ok = False" by simp
    with res Inr have "rest = fst (startWorkOnIssue_update E i t False)"
      by simp (metis fst_conv)
    then show ?thesis by (simp add: update_skipped)
  qed
  with tr quiet show ?thesis by (simp add: trace_append)
qed

lemma run_after_branch:
  assumes "fetchIssueDetails E i True = Inr d"
    and "startWorkOnIssue_branch E (issue_branchName d)
           (getOption E ''prefer_graphite'' = Some ''true'') ref = Some (btr, Returned ok)"
  shows "startWorkOnIssue E i t ref =
         Some (FetchIssueDetailsCall i True # btr @ fst (startWorkOnIssue_update E i t ok),
               snd (startWorkOnIssue_update E i t ok))"
  using assms by (simp add: startWorkOnIssue_def and_then_def prepend_def)

lemma branch_succeeded:
  assumes "startWorkOnIssue_branch E b pg ref = Some (btr, Returned True)"
  shows "\<exists>c. spawned btr = [c] \<and> run_command E c = Inr True \<and> updates btr = []"
proof -
  from branch_shape [OF assms] obtain pre c log where
    btr: "btr = pre @ Spawn c # log"
    and quiet: "spawned pre = []" "updates pre = []" "spawned log = []" "updates log = []"
    and res: "case run_command E c of
                Inl e \<Rightarrow> snd (btr, Returned True) = Threw e
              | Inr ok \<Rightarrow> snd (btr, Returned True) = Returned ok"
    unfolding fst_conv by blast
  from res have "run_command E c = Inr True"
    by (cases "run_command E c") auto
  with btr quiet show ?thesis by (simp add: trace_append)
qed

lemma example_branch:
  "startWorkOnIssue_branch E ''eng-123'' False None = Some (example_branch_trace, Returned True)"
  if "\<not> branchExists E ''eng-123''"
    and "run_command E \<lparr>cmd_exe = ''git'',
           cmd_args = [''checkout'', ''-b'', ''eng-123'', ''HEAD''], cmd_stdio = Piped\<rparr>
         = Inr True"
  using that
  by (simp add: startWorkOnIssue_branch_def createBranch_def prepend_def js_or_def
        js_truthy_def example_branch_trace_def)

lemma js_or_HEAD:
  "js_or v ''HEAD'' = (case v of None \<Rightarrow> ''HEAD'' | Some r \<Rightarrow> if r = [] then ''HEAD'' else r)"
  by (simp add: js_or_def js_truthy_def split: option.split)

lemma plain_git_run:
  "(fetchIssueDetails E issueId True = Inr d
      \<and> \<not> branchExists E (issue_branchName d)
      \<and> getOption E ''prefer_graphite'' \<noteq> Some ''true''
    \<longrightarrow> (\<exists>tr out. startWorkOnIssue E issueId teamId gitSourceRef = Some (tr, out)
           \<and> spawned tr =
               [\<lparr>cmd_exe = ''git'',
                 cmd_args = [''checkout'', ''-b'', issue_branchName d,
                             js_or gitSourceRef ''HEAD''],
                 cmd_stdio = Piped\<rparr>]
           \<and> (run_command E \<lparr>cmd_exe = ''git'',
                   cmd_args = [''checkout'', ''-b'', issue_branchName d,
                               js_or gitSourceRef ''HEAD''],
                   cmd_stdio = Piped\<rparr> = Inr True
                \<and> issueId \<noteq> [] \<and> getStartedState E teamId = Inr st
               \<longrightarrow> updates tr = [(issueId, state_id st)])))
   \<and> (startWorkOnIssue E issueId teamId gitSourceRef = Some (tr', out')
        \<and> c \<in> set (spawned tr') \<and> cmd_exe c = ''gt''
      \<longrightarrow> getOption E ''prefer_graphite'' = Some ''true'')"
proof (intro conjI impI)
  assume a: "fetchIssueDetails E issueId True = Inr d
      \<and> \<not> branchExists E (issue_branchName d)
      \<and> getOption E ''prefer_graphite'' \<noteq> Some ''true''"
  let ?b = "issue_branchName d"
  let ?c = "\<lparr>cmd_exe = ''git'', cmd_args = [''checkout'', ''-b'', ?b, js_or gitSourceRef ''HEAD''],
             cmd_stdio = Piped\<rparr>"
  let ?m = "and_then (createBranch E ?b False gitSourceRef)
              (startWorkOnIssue_update E issueId teamId)"
  let ?tr = "[FetchIssueDetailsCall issueId True, BranchExistsCall ?b] @ fst ?m"
  from a have pg: "(getOption E ''prefer_graphite'' = Some ''true'') = False" by simp
  from a have run: "startWorkOnIssue E issueId teamId gitSourceRef = Some (?tr, snd ?m)"
    using run_absent [of E issueId d teamId gitSourceRef] by (simp add: pg prepend_def)
  have sp: "spawned ?tr = [?c]"
    using created_then_update(1) [of E ?b False gitSourceRef issueId teamId]
    by (simp add: trace_append)
  have up: "updates ?tr = [(issueId, state_id st)]"
    if "run_command E ?c = Inr True \<and> issueId \<noteq> [] \<and> getStartedState E teamId = Inr st"
  proof -
    from that have "fst ?m = fst (createBranch E ?b False gitSourceRef)
                      @ fst (startWorkOnIssue_update E issueId teamId True)"
      by (simp add: git_created and_then_def prepend_def)
    with that show ?thesis
      by (simp add: git_created trace_append update_done)
  qed
  show "\<exists>tr out. startWorkOnIssue E issueId teamId gitSourceRef = Some (tr, out)
           \<and> spawned tr = [?c]
           \<and> (run_command E ?c = Inr True
                \<and> issueId \<noteq> [] \<and> getStartedState E teamId = Inr st
               \<longrightarrow> updates tr = [(issueId, state_id st)])"
    using run sp up by blast
next
  assume "startWorkOnIssue E issueId teamId gitSourceRef = Some (tr', out')
        \<and> c \<in> set (spawned tr') \<and> cmd_exe c = ''gt''"
  then have run: "startWorkOnIssue E issueId teamId gitSourceRef = Some (tr', out')"
    and c: "c \<in> set (spawned tr')" and gt: "cmd_exe c = ''gt''" by simp_all
  from run_spawned [OF run c] have
    "cmd_exe c = (if getOption E ''prefer_graphite'' = Some ''true'' then ''gt'' else ''git'')"
    by blast
  with gt show "getOption E ''prefer_graphite'' = Some ''true''"
    by (simp split: if_splits)
qed

lemma nonempty_id_never_exits:
  assumes run: "startWorkOnIssue E i t ref = Some (tr, out)" and id: "i \<noteq> []"
  shows "out \<noteq> Exited n"
proof (cases "fetchIssueDetails E i True")
  case (Inl e)
  with run show ?thesis by (auto simp: fetch_threw)
next
  case (Inr d)
  from run_shape [OF run Inr] obtain c' rest where
    res: "case run_command E c' of
            Inl e \<Rightarrow> rest = [] \<and> out = Threw e
          | Inr ok \<Rightarrow> (rest, out) = startWorkOnIssue_update E i t ok"
    by blast
  show ?thesis
  proof (cases "run_command E c'")
    case (Inl e)
    with res show ?thesis by simp
  next
    case (Inr ok)
    with res have "out = snd (startWorkOnIssue_update E i t ok)"
      by simp (metis snd_conv)
    with id show ?thesis by (simp add: update_returns)
  qed
qed

lemma update_state_threw:
  "getStartedState E t = Inl e \<Longrightarrow>
   startWorkOnIssue_update E i t True
     = ([GetStartedStateCall t, ConsoleErrorWith ''Failed to update issue state:'' e],
        Returned ())"
  by (simp add: startWorkOnIssue_update_def)

section \<open>The claims\<close>

text \<open>
  C1. In every run of \<open>startWorkOnIssue\<close>, a call of \<open>updateIssueState\<close> comes after the
  branch command, and that command reported success: the trace splits at the one spawned
  command, the command's exit was a success, the update lies after it, and there is neither
  an update nor another command before it, nor another command after it. And a run whose
  branch command did not report success (it failed, or could not be run) contains no call
  of \<open>updateIssueState\<close>.
\<close>

theorem update_only_after_successful_branch_operation:
  assumes run: "startWorkOnIssue E issueId teamId gitSourceRef = Some (tr, out)"
  shows "(UpdateIssueStateCall a s \<in> set tr
          \<longrightarrow> (\<exists>pre c post. tr = pre @ Spawn c # post \<and> run_command E c = Inr True
                 \<and> UpdateIssueStateCall a s \<in> set post
                 \<and> updates pre = [] \<and> spawned pre = [] \<and> spawned post = []))
         \<and> (c \<in> set (spawned tr) \<and> run_command E c \<noteq> Inr True \<longrightarrow> updates tr = [])"
  using update_needs_success [OF run] failure_skips_update [OF run] by blast

theorem update_only_after_successful_branch_operation_witness:
  "startWorkOnIssue example_env ''ENG-123'' ''ENG'' None = Some (example_trace, Returned ())
   \<and> UpdateIssueStateCall ''ENG-123'' ''st-1'' \<in> set example_trace
   \<and> (\<exists>pre c post. example_trace = pre @ Spawn c # post
          \<and> run_command example_env c = Inr True
          \<and> UpdateIssueStateCall ''ENG-123'' ''st-1'' \<in> set post
          \<and> updates pre = [] \<and> spawned pre = [] \<and> spawned post = [])
   \<and> startWorkOnIssue failing_env ''ENG-123'' ''ENG'' None = Some (failing_trace, Returned ())
   \<and> \<lparr>cmd_exe = ''git'', cmd_args = [''checkout'', ''-b'', ''eng-123'', ''HEAD''],
       cmd_stdio = Piped\<rparr> \<in> set (spawned failing_trace)
   \<and> run_command failing_env
        \<lparr>cmd_exe = ''git'', cmd_args = [''checkout'', ''-b'', ''eng-123'', ''HEAD''],
         cmd_stdio = Piped\<rparr> = Inr False
   \<and> updates failing_trace = []"
proof -
  let ?git = "\<lparr>cmd_exe = ''git'', cmd_args = [''checkout'', ''-b'', ''eng-123'', ''HEAD''],
               cmd_stdio = Piped\<rparr>"
  have upd: "UpdateIssueStateCall ''ENG-123'' ''st-1'' \<in> set example_trace"
    by (simp add: example_trace_def)
  note after = update_only_after_successful_branch_operation
    [OF example_run, of "''ENG-123''" "''st-1''", THEN conjunct1, rule_format, OF upd]
  have c: "?git \<in> set (spawned failing_trace)" by (simp add: failing_trace_def)
  have failed: "run_command failing_env ?git = Inr False" by (simp add: failing_env_def)
  then have "?git \<in> set (spawned failing_trace) \<and> run_command failing_env ?git \<noteq> Inr True"
    using c by simp
  note none = update_only_after_successful_branch_operation
    [OF failing_run, of _ _ ?git, THEN conjunct2, rule_format, OF this]
  show ?thesis
    by (intro conjI) (rule example_run upd after failing_run c failed none)+
qed

text \<open>
  C2. When the issue's branch name \<open>b\<close> does not exist, \<open>startWorkOnIssue\<close> returns, the only
  existence probe of the run is the one of \<open>b\<close> itself (no name \<open>b-n\<close> is probed, the suffix
  search is not entered), the user is not prompted, and the only command run is the creation
  of \<open>b\<close>: \<^verbatim>\<open>gt create b\<close> under the stacked tool, else \<^verbatim>\<open>git checkout -b b\<close> from the
  source ref or \<^verbatim>\<open>HEAD\<close>.
\<close>

theorem absent_branch_is_created_directly:
  assumes "fetchIssueDetails E issueId True = Inr d"
    and "\<not> branchExists E (issue_branchName d)"
  shows "\<exists>tr out. startWorkOnIssue E issueId teamId gitSourceRef = Some (tr, out)
           \<and> probed tr = [issue_branchName d]
           \<and> prompts tr = []
           \<and> spawned tr =
               [if getOption E ''prefer_graphite'' = Some ''true''
                then \<lparr>cmd_exe = ''gt'', cmd_args = [''create'', issue_branchName d],
                      cmd_stdio = Inherit\<rparr>
                else \<lparr>cmd_exe = ''git'',
                      cmd_args = [''checkout'', ''-b'', issue_branchName d,
                                  js_or gitSourceRef ''HEAD''],
                      cmd_stdio = Piped\<rparr>]"
  unfolding run_absent [OF assms]
  by (simp add: prepend_def created_then_update)

theorem absent_branch_is_created_directly_witness:
  "fetchIssueDetails example_env ''ENG-123'' True = Inr \<lparr>issue_branchName = ''eng-123''\<rparr>
   \<and> \<not> branchExists example_env ''eng-123''
   \<and> (\<exists>tr out. startWorkOnIssue example_env ''ENG-123'' ''ENG'' (Some ''main'') = Some (tr, out)
          \<and> probed tr = [''eng-123'']
          \<and> prompts tr = []
          \<and> spawned tr =
               [\<lparr>cmd_exe = ''git'', cmd_args = [''checkout'', ''-b'', ''eng-123'', ''main''],
                 cmd_stdio = Piped\<rparr>])"
proof -
  have f: "fetchIssueDetails example_env ''ENG-123'' True = Inr \<lparr>issue_branchName = ''eng-123''\<rparr>"
    by (simp add: example_env_def)
  have a: "\<not> branchExists example_env (issue_branchName \<lparr>issue_branchName = ''eng-123''\<rparr>)"
    by (simp add: example_env_def)
  from absent_branch_is_created_directly [OF f a, of "''ENG''" "Some ''main''"] f a
  show ?thesis by (simp add: example_env_def js_or_def js_truthy_def)
qed



text \<open>
  C4. \<open>findAvailableBranchName b\<close> returns exactly when some suffix \<open>n \<ge> 1\<close> has a name
  \<open>b-n\<close> that does not exist; the loop has no bound, so when every \<open>b-n\<close> exists it never
  returns (its value is \<open>None\<close>).
\<close>

theorem suffix_search_terminates_iff_some_suffix_is_free:
  "(\<exists>r. findAvailableBranchName E baseName = Some r)
   \<longleftrightarrow> (\<exists>n\<ge>1. \<not> branchExists E (suffixed baseName n))"
proof
  assume "\<exists>r. findAvailableBranchName E baseName = Some r"
  then obtain r where "findAvailableBranchName E baseName = Some r" ..
  from findAvailableBranchName_result [OF this]
  show "\<exists>n\<ge>1. \<not> branchExists E (suffixed baseName n)" by blast
next
  assume "\<exists>n\<ge>1. \<not> branchExists E (suffixed baseName n)"
  then obtain k where "1 \<le> k" "\<not> branchExists E (suffixed baseName k)" by blast
  from least_free [of k "\<lambda>k. branchExists E (suffixed baseName k)", OF this]
  obtain n where "1 \<le> n" "\<not> branchExists E (suffixed baseName n)"
    "\<forall>j. 1 \<le> j \<and> j < n \<longrightarrow> branchExists E (suffixed baseName j)"
    by blast
  from findAvailableBranchName_least [OF this]
  show "\<exists>r. findAvailableBranchName E baseName = Some r" by blast
qed

theorem suffix_search_terminates_iff_some_suffix_is_free_witness:
  "findAvailableBranchName taken_env ''eng-123'' \<noteq> None
   \<and> \<not> branchExists taken_env (suffixed ''eng-123'' 3)
   \<and> findAvailableBranchName full_env ''eng-123'' = None"
proof -
  have free: "\<not> branchExists taken_env (suffixed ''eng-123'' 3)"
    by (simp add: suffixed_examples taken_env_def)
  then have "\<exists>n\<ge>1. \<not> branchExists taken_env (suffixed ''eng-123'' n)"
    by (intro exI [of _ 3]) simp
  then have "\<exists>r. findAvailableBranchName taken_env ''eng-123'' = Some r"
    using suffix_search_terminates_iff_some_suffix_is_free [of taken_env "''eng-123''"]
    by blast
  then have returns: "findAvailableBranchName taken_env ''eng-123'' \<noteq> None" by auto
  have "\<not> (\<exists>n\<ge>1. \<not> branchExists full_env (suffixed ''eng-123'' n))"
    by (simp add: full_env_def)
  then have "\<not> (\<exists>r. findAvailableBranchName full_env ''eng-123'' = Some r)"
    using suffix_search_terminates_iff_some_suffix_is_free [of full_env "''eng-123''"]
    by blast
  then have "findAvailableBranchName full_env ''eng-123'' = None"
    by (cases "findAvailableBranchName full_env ''eng-123''") blast+
  with returns free show ?thesis by simp
qed

text \<open>
  C5. The filter of the team view is one fixed string, the same for every environment and
  every invocation that opens a URL; it contains no \<open>=\<close>; and after restoring the padding,
  base64-decoding it and reading the JSON text gives the filter object back.
\<close>

theorem filter_encoding_round_trip:
  "filter_str = ''eyJhbmQiOlt7ImFzc2lnbmVlIjp7Im9yIjpbeyJpc01lIjp7ImVxIjp0cnVlfX1dfX1dfQ''
   \<and> CHR ''='' \<notin> set filter_str
   \<and> Option.bind (decodeBase64 (restore_padding filter_str)) JSON_parse = Some filterObj
   \<and> opened (fst (openTeamAssigneeView E options)) =
       (case js_truthy (getTeamKey E) of
          None \<Rightarrow> []
        | Some teamId \<Rightarrow>
            (case js_truthy (getOption E ''workspace'') of
               None \<Rightarrow> []
             | Some workspace \<Rightarrow>
                 [(''https://linear.app/'' @ workspace @ ''/team/'' @ teamId
                   @ ''/active?filter='' @ filter_str, open_target options)]))"
proof -
  have no_pad: "CHR ''='' \<notin> set filter_str"
    unfolding filter_str_value by simp
  have decoded: "Option.bind (decodeBase64 (restore_padding filter_str)) JSON_parse = Some filterObj"
    by (simp only: filter_decoded filter_parsed Option.bind.simps)
  have url: "opened (fst (openTeamAssigneeView E options)) =
       (case js_truthy (getTeamKey E) of
          None \<Rightarrow> []
        | Some teamId \<Rightarrow>
            (case js_truthy (getOption E ''workspace'') of
               None \<Rightarrow> []
             | Some workspace \<Rightarrow>
                 [(''https://linear.app/'' @ workspace @ ''/team/'' @ teamId
                   @ ''/active?filter='' @ filter_str, open_target options)]))"
    by (simp add: openTeamAssigneeView_def Let_def split: option.split)
  from filter_str_value no_pad decoded url show ?thesis by (intro conjI)
qed

text \<open>
  C6. When the \<open>workspace\<close> option is absent, each of \<open>openIssuePage\<close>, \<open>openProjectPage\<close>
  and \<open>openTeamAssigneeView\<close> ends the process with exit status 1, hands no URL to the OS
  opener, and the last thing it does before exiting is to print an error message.
\<close>

theorem missing_workspace_exits_without_opening:
  assumes "getOption E ''workspace'' = None"
  shows "snd (openIssuePage E providedId options) = Exited 1
         \<and> opened (fst (openIssuePage E providedId options)) = []
         \<and> (\<exists>m. last (fst (openIssuePage E providedId options)) = ConsoleError m)
         \<and> openProjectPage E projectId options = ([ConsoleError workspace_missing], Exited 1)
         \<and> snd (openTeamAssigneeView E options) = Exited 1
         \<and> opened (fst (openTeamAssigneeView E options)) = []
         \<and> (\<exists>m. fst (openTeamAssigneeView E options) = [ConsoleError m])"
  using assms
  by (simp add: openIssuePage_def openProjectPage_def openTeamAssigneeView_def js_truthy_def
        split: option.split)

theorem missing_workspace_exits_without_opening_witness:
  "getOption unconfigured_env ''workspace'' = None
   \<and> openIssuePage unconfigured_env (Some ''ENG-123'') \<lparr>app = None, web = None\<rparr>
       = ([GetIssueIdentifierCall (Some ''ENG-123''), ConsoleError workspace_missing], Exited 1)
   \<and> openProjectPage unconfigured_env ''roadmap'' \<lparr>app = None, web = None\<rparr>
       = ([ConsoleError workspace_missing], Exited 1)
   \<and> openTeamAssigneeView unconfigured_env \<lparr>app = Some True, web = None\<rparr>
       = ([ConsoleError workspace_missing], Exited 1)"
proof -
  have none: "getOption unconfigured_env ''workspace'' = None"
    by (simp add: unconfigured_env_def)
  note exits = missing_workspace_exits_without_opening
    [OF none, of "Some ''ENG-123''" "\<lparr>app = None, web = None\<rparr>" "''roadmap''"]
  have issue: "openIssuePage unconfigured_env (Some ''ENG-123'') \<lparr>app = None, web = None\<rparr>
       = ([GetIssueIdentifierCall (Some ''ENG-123''), ConsoleError workspace_missing], Exited 1)"
    by (simp add: openIssuePage_def unconfigured_env_def example_env_def js_truthy_def)
  have team: "openTeamAssigneeView unconfigured_env \<lparr>app = Some True, web = None\<rparr>
       = ([ConsoleError workspace_missing], Exited 1)"
    by (simp add: openTeamAssigneeView_def unconfigured_env_def example_env_def js_truthy_def)
  from none exits issue team show ?thesis by simp
qed

text \<open>
  C7. Once the issue is fetched and the branch operation has returned success, if
  \<open>getStartedState\<close> throws \<open>e\<close>, or it returns and \<open>updateIssueState\<close> (called for a non-empty
  issue id) throws \<open>e\<close>, then \<open>startWorkOnIssue\<close> returns normally: the run is the fetch, the
  branch operation's own effects, the tracker calls, and last the logged
  \<^verbatim>\<open>Failed to update issue state:\<close> with \<open>e\<close>. The one command of the whole run is the
  branch command, which succeeded: nothing is run to undo the branch operation.
\<close>

theorem update_failure_is_caught_and_branch_kept:
  assumes fetched: "fetchIssueDetails E issueId True = Inr d"
    and branch: "startWorkOnIssue_branch E (issue_branchName d)
                   (getOption E ''prefer_graphite'' = Some ''true'') gitSourceRef
                 = Some (btr, Returned True)"
    and thrown: "getStartedState E teamId = Inl e
                 \<or> (issueId \<noteq> [] \<and> (\<exists>st. getStartedState E teamId = Inr st
                        \<and> updateIssueState E issueId (state_id st) = Inl e))"
  shows "\<exists>tr c mid. startWorkOnIssue E issueId teamId gitSourceRef = Some (tr, Returned ())
           \<and> tr = FetchIssueDetailsCall issueId True # btr @ mid
                  @ [ConsoleErrorWith ''Failed to update issue state:'' e]
           \<and> spawned mid = []
           \<and> spawned tr = [c] \<and> run_command E c = Inr True"
proof -
  from update_caught [OF thrown] obtain mid where
    mid: "startWorkOnIssue_update E issueId teamId True
          = (mid @ [ConsoleErrorWith ''Failed to update issue state:'' e], Returned ())"
      "spawned mid = []"
    by blast
  from branch_succeeded [OF branch] obtain c where
    c: "spawned btr = [c]" "run_command E c = Inr True" by blast
  let ?tr = "FetchIssueDetailsCall issueId True # btr @ mid
               @ [ConsoleErrorWith ''Failed to update issue state:'' e]"
  have run: "startWorkOnIssue E issueId teamId gitSourceRef = Some (?tr, Returned ())"
    using run_after_branch [OF fetched branch, of teamId] mid(1) by simp
  have "spawned ?tr = [c]" using c(1) mid(2) by (simp add: trace_append)
  with run mid(2) c(2) show ?thesis by blast
qed

theorem update_failure_is_caught_and_branch_kept_witness:
  "fetchIssueDetails offline_env ''ENG-123'' True = Inr \<lparr>issue_branchName = ''eng-123''\<rparr>
   \<and> startWorkOnIssue_branch offline_env ''eng-123'' False None
       = Some (example_branch_trace, Returned True)
   \<and> getStartedState offline_env ''ENG''
       = Inr \<lparr>state_id = ''st-1'', state_name = ''In Progress''\<rparr>
   \<and> updateIssueState offline_env ''ENG-123'' ''st-1'' = Inl (Error ''network'')
   \<and> (\<exists>tr c mid. startWorkOnIssue offline_env ''ENG-123'' ''ENG'' None = Some (tr, Returned ())
          \<and> tr = FetchIssueDetailsCall ''ENG-123'' True # example_branch_trace @ mid
                 @ [ConsoleErrorWith ''Failed to update issue state:'' (Error ''network'')]
          \<and> spawned mid = []
          \<and> spawned tr = [c] \<and> run_command offline_env c = Inr True)
   \<and> startWorkOnIssue_branch no_state_env ''eng-123'' False None
       = Some (example_branch_trace, Returned True)
   \<and> getStartedState no_state_env ''ENG'' = Inl (Error ''network'')
   \<and> (\<exists>tr c mid. startWorkOnIssue no_state_env ''ENG-123'' ''ENG'' None = Some (tr, Returned ())
          \<and> tr = FetchIssueDetailsCall ''ENG-123'' True # example_branch_trace @ mid
                 @ [ConsoleErrorWith ''Failed to update issue state:'' (Error ''network'')]
          \<and> spawned mid = []
          \<and> spawned tr = [c] \<and> run_command no_state_env c = Inr True)"
proof -
  let ?d = "\<lparr>issue_branchName = ''eng-123''\<rparr>"
  let ?st = "\<lparr>state_id = ''st-1'', state_name = ''In Progress''\<rparr>"
  have f1: "fetchIssueDetails offline_env ''ENG-123'' True = Inr ?d"
    by (simp add: offline_env_def example_env_def)
  have b1: "startWorkOnIssue_branch offline_env ''eng-123'' False None
            = Some (example_branch_trace, Returned True)"
    by (rule example_branch) (simp_all add: offline_env_def example_env_def)
  have pg1: "(getOption offline_env ''prefer_graphite'' = Some ''true'') = False"
    by (simp add: offline_env_def example_env_def)
  have b1': "startWorkOnIssue_branch offline_env (issue_branchName ?d)
               (getOption offline_env ''prefer_graphite'' = Some ''true'') None
             = Some (example_branch_trace, Returned True)"
    using b1 by (simp add: pg1)
  have st1: "getStartedState offline_env ''ENG'' = Inr ?st"
    by (simp add: offline_env_def example_env_def)
  have up1: "updateIssueState offline_env ''ENG-123'' ''st-1'' = Inl (Error ''network'')"
    by (simp add: offline_env_def)
  have thrown1: "getStartedState offline_env ''ENG'' = Inl (Error ''network'')
                 \<or> (''ENG-123'' \<noteq> [] \<and> (\<exists>st. getStartedState offline_env ''ENG'' = Inr st
                        \<and> updateIssueState offline_env ''ENG-123'' (state_id st)
                            = Inl (Error ''network'')))"
    using st1 up1 by simp
  note caught1 = update_failure_is_caught_and_branch_kept [OF f1 b1' thrown1]
  have f2: "fetchIssueDetails no_state_env ''ENG-123'' True = Inr ?d"
    by (simp add: no_state_env_def example_env_def)
  have b2: "startWorkOnIssue_branch no_state_env ''eng-123'' False None
            = Some (example_branch_trace, Returned True)"
    by (rule example_branch) (simp_all add: no_state_env_def example_env_def)
  have pg2: "(getOption no_state_env ''prefer_graphite'' = Some ''true'') = False"
    by (simp add: no_state_env_def example_env_def)
  have b2': "startWorkOnIssue_branch no_state_env (issue_branchName ?d)
               (getOption no_state_env ''prefer_graphite'' = Some ''true'') None
             = Some (example_branch_trace, Returned True)"
    using b2 by (simp add: pg2)
  have st2: "getStartedState no_state_env ''ENG'' = Inl (Error ''network'')"
    by (simp add: no_state_env_def)
  then have thrown2: "getStartedState no_state_env ''ENG'' = Inl (Error ''network'')
                 \<or> (''ENG-123'' \<noteq> [] \<and> (\<exists>st. getStartedState no_state_env ''ENG'' = Inr st
                        \<and> updateIssueState no_state_env ''ENG-123'' (state_id st)
                            = Inl (Error ''network'')))"
    by simp
  note caught2 = update_failure_is_caught_and_branch_kept [OF f2 b2' thrown2]
  show ?thesis
    by (intro conjI) (rule f1 b1 st1 up1 caught1 b2 st2 caught2)+
qed

text \<open>
  C8. With a resolvable (present and non-empty) workspace slug \<open>w\<close>: \<open>openIssuePage\<close> hands
  exactly one URL to the opener, \<^verbatim>\<open>https://linear.app/w/issue/x\<close> for the resolved issue
  identifier \<open>x\<close>, and \<open>openProjectPage\<close> exactly \<^verbatim>\<open>https://linear.app/w/project/y\<close> for
  the project identifier \<open>y\<close>.
\<close>

theorem issue_and_project_urls:
  assumes "getOption E ''workspace'' = Some w" and "w \<noteq> []"
    and "getIssueIdentifier E providedId = Some x" and "x \<noteq> []"
  shows "opened (fst (openIssuePage E providedId options))
           = [(''https://linear.app/'' @ w @ ''/issue/'' @ x, open_target options)]
         \<and> opened (fst (openProjectPage E y options))
           = [(''https://linear.app/'' @ w @ ''/project/'' @ y, open_target options)]"
  using assms
  by (simp add: openIssuePage_def openProjectPage_def js_truthy_def Let_def)

theorem issue_and_project_urls_witness:
  "getOption example_env ''workspace'' = Some ''acme'' \<and> ''acme'' \<noteq> []
   \<and> getIssueIdentifier example_env None = Some ''ENG-123'' \<and> ''ENG-123'' \<noteq> []
   \<and> opened (fst (openIssuePage example_env None \<lparr>app = Some True, web = None\<rparr>))
       = [(''https://linear.app/acme/issue/ENG-123'', Some ''Linear'')]
   \<and> opened (fst (openProjectPage example_env ''roadmap'' \<lparr>app = Some True, web = None\<rparr>))
       = [(''https://linear.app/acme/project/roadmap'', Some ''Linear'')]"
proof -
  have w: "getOption example_env ''workspace'' = Some ''acme''" "''acme'' \<noteq> []"
    by (simp_all add: example_env_def)
  have x: "getIssueIdentifier example_env None = Some ''ENG-123''" "''ENG-123'' \<noteq> []"
    by (simp_all add: example_env_def)
  from issue_and_project_urls
    [OF w x, of "\<lparr>app = Some True, web = None\<rparr>" "''roadmap''"] w x
  show ?thesis by (simp add: open_target_def)
qed

text \<open>
  C9. When the issue's branch name does not exist and the \<open>prefer_graphite\<close> option is not
  the string \<open>true\<close> (any other string, or absent), \<open>startWorkOnIssue\<close> returns and the only
  command it runs is \<^verbatim>\<open>git checkout -b <branchName> <ref>\<close>, where the ref is the given
  source ref when it is a non-empty string, and \<^verbatim>\<open>HEAD\<close> when none or an empty one is
  given; when that command exits successfully, for an issue with a non-empty id and a team
  whose started state \<open>st\<close> is returned by \<open>getStartedState\<close>, the run calls
  \<open>updateIssueState\<close> exactly once, with the id of \<open>st\<close>. And in any run, a spawned command
  whose executable is \<open>gt\<close> implies that the option equals the string \<open>true\<close>.
\<close>

theorem plain_git_creation_then_update:
  "(fetchIssueDetails E issueId True = Inr d
      \<and> \<not> branchExists E (issue_branchName d)
      \<and> getOption E ''prefer_graphite'' \<noteq> Some ''true''
    \<longrightarrow> (\<exists>tr out. startWorkOnIssue E issueId teamId gitSourceRef = Some (tr, out)
           \<and> spawned tr =
               [\<lparr>cmd_exe = ''git'',
                 cmd_args = [''checkout'', ''-b'', issue_branchName d,
                             case gitSourceRef of
                               None \<Rightarrow> ''HEAD''
                             | Some r \<Rightarrow> if r = [] then ''HEAD'' else r],
                 cmd_stdio = Piped\<rparr>]
           \<and> (run_command E \<lparr>cmd_exe = ''git'',
                   cmd_args = [''checkout'', ''-b'', issue_branchName d,
                               case gitSourceRef of
                                 None \<Rightarrow> ''HEAD''
                               | Some r \<Rightarrow> if r = [] then ''HEAD'' else r],
                   cmd_stdio = Piped\<rparr> = Inr True
                \<and> issueId \<noteq> [] \<and> getStartedState E teamId = Inr st
               \<longrightarrow> updates tr = [(issueId, state_id st)])))
   \<and> (startWorkOnIssue E issueId teamId gitSourceRef = Some (tr', out')
        \<and> c \<in> set (spawned tr') \<and> cmd_exe c = ''gt''
      \<longrightarrow> getOption E ''prefer_graphite'' = Some ''true'')"
  using plain_git_run [of E issueId d teamId gitSourceRef st tr' out' c]
  unfolding js_or_HEAD .

theorem plain_git_creation_then_update_witness:
  "fetchIssueDetails example_env ''ENG-123'' True = Inr \<lparr>issue_branchName = ''eng-123''\<rparr>
   \<and> \<not> branchExists example_env ''eng-123''
   \<and> getOption example_env ''prefer_graphite'' = Some ''false''
   \<and> getStartedState example_env ''ENG''
       = Inr \<lparr>state_id = ''st-1'', state_name = ''In Progress''\<rparr>
   \<and> (\<exists>tr out. startWorkOnIssue example_env ''ENG-123'' ''ENG'' (Some ''main'') = Some (tr, out)
          \<and> spawned tr
              = [\<lparr>cmd_exe = ''git'', cmd_args = [''checkout'', ''-b'', ''eng-123'', ''main''],
                  cmd_stdio = Piped\<rparr>]
          \<and> updates tr = [(''ENG-123'', ''st-1'')])
   \<and> (\<exists>tr out. startWorkOnIssue example_env ''ENG-123'' ''ENG'' None = Some (tr, out)
          \<and> spawned tr
              = [\<lparr>cmd_exe = ''git'', cmd_args = [''checkout'', ''-b'', ''eng-123'', ''HEAD''],
                  cmd_stdio = Piped\<rparr>]
          \<and> updates tr = [(''ENG-123'', ''st-1'')])
   \<and> (\<exists>tr out. startWorkOnIssue example_env ''ENG-123'' ''ENG'' (Some []) = Some (tr, out)
          \<and> spawned tr
              = [\<lparr>cmd_exe = ''git'', cmd_args = [''checkout'', ''-b'', ''eng-123'', ''HEAD''],
                  cmd_stdio = Piped\<rparr>]
          \<and> updates tr = [(''ENG-123'', ''st-1'')])
   \<and> startWorkOnIssue graphite_env ''ENG-123'' ''ENG'' None = Some (graphite_trace, Returned ())
   \<and> \<lparr>cmd_exe = ''gt'', cmd_args = [''create'', ''eng-123''], cmd_stdio = Inherit\<rparr>
       \<in> set (spawned graphite_trace)
   \<and> getOption graphite_env ''prefer_graphite'' = Some ''true''"
proof -
  let ?d = "\<lparr>issue_branchName = ''eng-123''\<rparr>"
  let ?st = "\<lparr>state_id = ''st-1'', state_name = ''In Progress''\<rparr>"
  let ?gt = "\<lparr>cmd_exe = ''gt'', cmd_args = [''create'', ''eng-123''], cmd_stdio = Inherit\<rparr>"
  have f: "fetchIssueDetails example_env ''ENG-123'' True = Inr ?d"
    and a: "\<not> branchExists example_env ''eng-123''"
    and pg: "getOption example_env ''prefer_graphite'' = Some ''false''"
    and ok: "\<And>c. run_command example_env c = Inr True"
    and st: "getStartedState example_env ''ENG'' = Inr ?st"
    by (simp_all add: example_env_def)
  have given: "\<exists>tr out. startWorkOnIssue example_env ''ENG-123'' ''ENG'' (Some ''main'')
                  = Some (tr, out)
          \<and> spawned tr
              = [\<lparr>cmd_exe = ''git'', cmd_args = [''checkout'', ''-b'', ''eng-123'', ''main''],
                  cmd_stdio = Piped\<rparr>]
          \<and> updates tr = [(''ENG-123'', ''st-1'')]"
    using plain_git_creation_then_update
      [of example_env "''ENG-123''" ?d "''ENG''" "Some ''main''" ?st, THEN conjunct1]
      f a pg ok st by simp
  have head: "\<exists>tr out. startWorkOnIssue example_env ''ENG-123'' ''ENG'' None = Some (tr, out)
          \<and> spawned tr
              = [\<lparr>cmd_exe = ''git'', cmd_args = [''checkout'', ''-b'', ''eng-123'', ''HEAD''],
                  cmd_stdio = Piped\<rparr>]
          \<and> updates tr = [(''ENG-123'', ''st-1'')]"
    using plain_git_creation_then_update
      [of example_env "''ENG-123''" ?d "''ENG''" None ?st, THEN conjunct1]
      f a pg ok st by simp
  have empty: "\<exists>tr out. startWorkOnIssue example_env ''ENG-123'' ''ENG'' (Some []) = Some (tr, out)
          \<and> spawned tr
              = [\<lparr>cmd_exe = ''git'', cmd_args = [''checkout'', ''-b'', ''eng-123'', ''HEAD''],
                  cmd_stdio = Piped\<rparr>]
          \<and> updates tr = [(''ENG-123'', ''st-1'')]"
    using plain_git_creation_then_update
      [of example_env "''ENG-123''" ?d "''ENG''" "Some []" ?st, THEN conjunct1]
      f a pg ok st by simp
  have mem: "?gt \<in> set (spawned graphite_trace)" by (simp add: graphite_trace_def)
  have only_gt: "getOption graphite_env ''prefer_graphite'' = Some ''true''"
    using plain_git_creation_then_update
      [of graphite_env "''ENG-123''" ?d "''ENG''" None ?st graphite_trace "Returned ()" ?gt,
       THEN conjunct2]
      graphite_run mem by simp
  show ?thesis
    by (intro conjI) (rule f a pg st given head empty graphite_run mem only_gt)+
qed

text \<open>
  C10, as stated, fails: with an empty issue id and a successful branch command, a run in
  which \<open>getStartedState\<close> throws does not exit; the error is caught and the function returns
  normally. The call of \<open>getStartedState\<close> comes before the test of the issue id.
\<close>

theorem exit_needs_started_state_counterexample:
  "startWorkOnIssue no_state_env [] ''ENG'' None = Some (no_state_trace, Returned ())
   \<and> spawned no_state_trace
       = [\<lparr>cmd_exe = ''git'', cmd_args = [''checkout'', ''-b'', ''eng-123'', ''HEAD''],
           cmd_stdio = Piped\<rparr>]
   \<and> run_command no_state_env
        \<lparr>cmd_exe = ''git'', cmd_args = [''checkout'', ''-b'', ''eng-123'', ''HEAD''],
         cmd_stdio = Piped\<rparr> = Inr True
   \<and> Returned () \<noteq> (Exited 1 :: unit outcome)"
proof -
  have "spawned no_state_trace
       = [\<lparr>cmd_exe = ''git'', cmd_args = [''checkout'', ''-b'', ''eng-123'', ''HEAD''],
           cmd_stdio = Piped\<rparr>]"
    by (simp add: no_state_trace_def)
  moreover have "run_command no_state_env
        \<lparr>cmd_exe = ''git'', cmd_args = [''checkout'', ''-b'', ''eng-123'', ''HEAD''],
         cmd_stdio = Piped\<rparr> = Inr True"
    by (simp add: no_state_env_def example_env_def)
  ultimately show ?thesis using no_state_run by simp
qed

text \<open>
  C10, amended. In a run of \<open>startWorkOnIssue\<close> with a non-empty issue id the process is
  never terminated (the outcome is never an exit). With an empty issue id, once the issue is
  fetched and the branch operation has returned success: if \<open>getStartedState\<close> returns, the
  run ends by printing \<^verbatim>\<open>No issue ID resolved\<close> and exiting with status 1, without any
  issue-state update; if \<open>getStartedState\<close> throws, the error is caught and logged and
  \<open>startWorkOnIssue\<close> returns normally.
\<close>

theorem exit_only_for_empty_issue_id:
  "(issueId \<noteq> [] \<and> startWorkOnIssue E issueId teamId gitSourceRef = Some (tr, out)
    \<longrightarrow> (\<forall>n. out \<noteq> Exited n))
   \<and> (fetchIssueDetails E [] True = Inr d
        \<and> startWorkOnIssue_branch E (issue_branchName d)
            (getOption E ''prefer_graphite'' = Some ''true'') gitSourceRef
          = Some (btr, Returned True)
      \<longrightarrow> (getStartedState E teamId = Inr st
            \<longrightarrow> (\<exists>tr. startWorkOnIssue E [] teamId gitSourceRef = Some (tr, Exited 1)
                   \<and> tr = FetchIssueDetailsCall [] True # btr
                          @ [GetStartedStateCall teamId, ConsoleError ''No issue ID resolved'']
                   \<and> updates tr = []))
          \<and> (getStartedState E teamId = Inl e
            \<longrightarrow> startWorkOnIssue E [] teamId gitSourceRef
                  = Some (FetchIssueDetailsCall [] True # btr
                          @ [GetStartedStateCall teamId,
                             ConsoleErrorWith ''Failed to update issue state:'' e],
                          Returned ())))"
proof (intro conjI impI allI)
  fix n
  assume "issueId \<noteq> [] \<and> startWorkOnIssue E issueId teamId gitSourceRef = Some (tr, out)"
  then show "out \<noteq> Exited n" using nonempty_id_never_exits by blast
next
  assume a: "fetchIssueDetails E [] True = Inr d
        \<and> startWorkOnIssue_branch E (issue_branchName d)
            (getOption E ''prefer_graphite'' = Some ''true'') gitSourceRef
          = Some (btr, Returned True)"
    and st: "getStartedState E teamId = Inr st"
  let ?tr = "FetchIssueDetailsCall [] True # btr
               @ [GetStartedStateCall teamId, ConsoleError ''No issue ID resolved'']"
  from a have run: "startWorkOnIssue E [] teamId gitSourceRef = Some (?tr, Exited 1)"
    using run_after_branch [of E "[]" d gitSourceRef btr True teamId] update_exits [OF st]
    by simp
  from a branch_succeeded have "updates btr = []" by blast
  then have "updates ?tr = []" by (simp add: trace_append)
  with run show "\<exists>tr. startWorkOnIssue E [] teamId gitSourceRef = Some (tr, Exited 1)
                   \<and> tr = ?tr \<and> updates tr = []"
    by blast
next
  assume a: "fetchIssueDetails E [] True = Inr d
        \<and> startWorkOnIssue_branch E (issue_branchName d)
            (getOption E ''prefer_graphite'' = Some ''true'') gitSourceRef
          = Some (btr, Returned True)"
    and st: "getStartedState E teamId = Inl e"
  from a show "startWorkOnIssue E [] teamId gitSourceRef
                  = Some (FetchIssueDetailsCall [] True # btr
                          @ [GetStartedStateCall teamId,
                             ConsoleErrorWith ''Failed to update issue state:'' e],
                          Returned ())"
    using run_after_branch [of E "[]" d gitSourceRef btr True teamId]
      update_state_threw [OF st]
    by simp
qed

theorem exit_only_for_empty_issue_id_witness:
  "''ENG-123'' \<noteq> []
   \<and> startWorkOnIssue example_env ''ENG-123'' ''ENG'' None = Some (example_trace, Returned ())
   \<and> (\<forall>n. Returned () \<noteq> (Exited n :: unit outcome))
   \<and> fetchIssueDetails example_env [] True = Inr \<lparr>issue_branchName = ''eng-123''\<rparr>
   \<and> startWorkOnIssue_branch example_env ''eng-123'' False None
       = Some (example_branch_trace, Returned True)
   \<and> getStartedState example_env ''ENG''
       = Inr \<lparr>state_id = ''st-1'', state_name = ''In Progress''\<rparr>
   \<and> (\<exists>tr. startWorkOnIssue example_env [] ''ENG'' None = Some (tr, Exited 1)
          \<and> tr = FetchIssueDetailsCall [] True # example_branch_trace
                 @ [GetStartedStateCall ''ENG'', ConsoleError ''No issue ID resolved'']
          \<and> updates tr = [])
   \<and> fetchIssueDetails no_state_env [] True = Inr \<lparr>issue_branchName = ''eng-123''\<rparr>
   \<and> startWorkOnIssue_branch no_state_env ''eng-123'' False None
       = Some (example_branch_trace, Returned True)
   \<and> getStartedState no_state_env ''ENG'' = Inl (Error ''network'')
   \<and> startWorkOnIssue no_state_env [] ''ENG'' None
       = Some (FetchIssueDetailsCall [] True # example_branch_trace
               @ [GetStartedStateCall ''ENG'',
                  ConsoleErrorWith ''Failed to update issue state:'' (Error ''network'')],
               Returned ())"
proof -
  let ?d = "\<lparr>issue_branchName = ''eng-123''\<rparr>"
  let ?st = "\<lparr>state_id = ''st-1'', state_name = ''In Progress''\<rparr>"
  have id: "''ENG-123'' \<noteq> []" by simp
  have never: "\<forall>n. Returned () \<noteq> (Exited n :: unit outcome)"
    using exit_only_for_empty_issue_id
      [of "''ENG-123''" example_env "''ENG''" None example_trace "Returned ()", THEN conjunct1]
      example_run by simp
  have f1: "fetchIssueDetails example_env [] True = Inr ?d"
    and st1: "getStartedState example_env ''ENG'' = Inr ?st"
    and pg1: "(getOption example_env ''prefer_graphite'' = Some ''true'') = False"
    by (simp_all add: example_env_def)
  have b1: "startWorkOnIssue_branch example_env ''eng-123'' False None
            = Some (example_branch_trace, Returned True)"
    by (rule example_branch) (simp_all add: example_env_def)
  have exits: "\<exists>tr. startWorkOnIssue example_env [] ''ENG'' None = Some (tr, Exited 1)
          \<and> tr = FetchIssueDetailsCall [] True # example_branch_trace
                 @ [GetStartedStateCall ''ENG'', ConsoleError ''No issue ID resolved'']
          \<and> updates tr = []"
    using exit_only_for_empty_issue_id
      [of _ example_env "''ENG''" None _ _ ?d example_branch_trace ?st, THEN conjunct2]
      f1 b1 st1 by (simp add: pg1)
  have f2: "fetchIssueDetails no_state_env [] True = Inr ?d"
    and st2: "getStartedState no_state_env ''ENG'' = Inl (Error ''network'')"
    and pg2: "(getOption no_state_env ''prefer_graphite'' = Some ''true'') = False"
    by (simp_all add: no_state_env_def example_env_def)
  have b2: "startWorkOnIssue_branch no_state_env ''eng-123'' False None
            = Some (example_branch_trace, Returned True)"
    by (rule example_branch) (simp_all add: no_state_env_def example_env_def)
  have returns: "startWorkOnIssue no_state_env [] ''ENG'' None
       = Some (FetchIssueDetailsCall [] True # example_branch_trace
               @ [GetStartedStateCall ''ENG'',
                  ConsoleErrorWith ''Failed to update issue state:'' (Error ''network'')],
               Returned ())"
    using exit_only_for_empty_issue_id
      [of _ no_state_env "''ENG''" None _ _ ?d example_branch_trace _ "Error ''network''",
       THEN conjunct2]
      f2 b2 st2 by (simp add: pg2)
  show ?thesis
    by (intro conjI) (rule id example_run never f1 b1 st1 exits f2 b2 st2 returns)+
qed

end
